theory Spec2Isabelle
  imports Main
begin

section \<open>SpiderScan: the orchestration logic of spiderscan.py\<close>

text \<open>
  The program chains external tools: it runs shell commands, tests paths for existence,
  copies one text file and writes log records. The model makes each of these effects
  explicit. A \<open>world\<close> holds the file system and the chronological trace of what the
  program did; every function of the source becomes a function from a world to a result
  and the new world. A Python exception is the \<open>Inl\<close> branch of the result.

  What the program cannot decide by itself is a parameter, collected in \<open>env\<close>:
  the behaviour of the shell on a command (exit status, captured output and the
  file system it leaves behind), the outcome of \<open>bytes.decode()\<close>, Python's
  \<open>str()\<close> of an exception, which bytes decode in the codec of the locale, for which
  paths \<open>os.stat\<close> fails with an error that \<open>Path.exists()\<close> does not swallow, and
  whether the user interrupts the program while it waits for a command. The shell sees the whole world, trace included, so a
  command may behave differently from one attempt to the next. The log file
  \<open>spiderscan.log\<close> is represented by the \<open>Log\<close> events of the trace and is not a
  node of the modelled file system; paths are identified after pathlib's normalisation
  (no symbolic links, no resolution of \<open>..\<close>).
\<close>

subsection \<open>Paths (pathlib.PurePosixPath)\<close>

datatype path = PosixPath (root: string) (parts: "string list")

fun split_sep :: "string \<Rightarrow> string list" where
  "split_sep [] = [[]]"
| "split_sep (c # cs) =
     (if c = CHR ''/'' then [] # split_sep cs
      else (case split_sep cs of [] \<Rightarrow> [[c]] | p # ps \<Rightarrow> (c # p) # ps))"

definition parse_root :: "string \<Rightarrow> string" where
  "parse_root s =
     (if take 2 s = ''//'' \<and> take 3 s \<noteq> ''///'' then ''//''
      else if take 1 s = ''/'' then ''/''
      else '''')"

definition Path :: "string \<Rightarrow> path" where
  "Path s = PosixPath (parse_root s) (filter (\<lambda>p. p \<noteq> '''' \<and> p \<noteq> ''.'') (split_sep s))"

fun join_sep :: "string list \<Rightarrow> string" where
  "join_sep [] = []"
| "join_sep [p] = p"
| "join_sep (p # q # ps) = p @ ''/'' @ join_sep (q # ps)"

definition path_str :: "path \<Rightarrow> string" where
  "path_str p =
     (if parts p = [] then (if root p = '''' then ''.'' else root p)
      else root p @ join_sep (parts p))"

definition joinpath :: "path \<Rightarrow> string \<Rightarrow> path" where
  "joinpath p s =
     (let q = Path s
      in if root q \<noteq> '''' then q else PosixPath (root p) (parts p @ parts q))"

definition parent :: "path \<Rightarrow> path" where
  "parent p = PosixPath (root p) (butlast (parts p))"

text \<open>
  Python passes either a \<open>str\<close> or a \<open>Path\<close> object where a path is expected:
  \<open>Path(x)\<close> accepts both and an f-string formats both.
\<close>

datatype pathlike = Str string | PathObj path

fun to_Path :: "pathlike \<Rightarrow> path" where
  "to_Path (Str s) = Path s"
| "to_Path (PathObj p) = p"

fun format_pathlike :: "pathlike \<Rightarrow> string" where
  "format_pathlike (Str s) = s"
| "format_pathlike (PathObj p) = path_str p"

subsection \<open>File system, trace and world\<close>

datatype node = File string | Dir

type_synonym filesystem = "path \<Rightarrow> node option"

datatype level = INFO | ERROR

text \<open>
  The trace records, in order, what the program asks of its surroundings: a record
  handed to \<open>logging\<close>, the printed banner, a call of \<open>subprocess.call\<close>, a call of
  \<open>subprocess.run\<close> (command and working directory), a \<open>time.sleep\<close> (in
  milliseconds), a \<open>Path.mkdir\<close>, an \<open>open\<close> (path and mode) and an \<open>os.remove\<close>.
  Tests for the existence of a path leave no event.
\<close>

datatype event =
    Log level string
  | PrintBanner
  | Call string
  | Run string "string option"
  | Sleep nat
  | Mkdir path
  | Open path string
  | Remove path

record world =
  fs :: filesystem
  trace :: "event list"

datatype pyerror =
    CalledProcessError string int string string
  | UnicodeDecodeError
  | FileNotFoundError string
  | NotADirectoryError string
  | IsADirectoryError string
  | FileExistsError string
  | OSError int
  | KeyboardInterrupt

text \<open>
  \<open>KeyboardInterrupt\<close> derives from \<open>BaseException\<close> only; every other error of the
  model is an instance of \<open>Exception\<close>, which is what \<open>except Exception\<close> catches.
\<close>

fun is_Exception :: "pyerror \<Rightarrow> bool" where
  "is_Exception KeyboardInterrupt = False"
| "is_Exception e = True"

type_synonym 'a outcome = "(pyerror + 'a) \<times> world"

record completed =
  returncode :: int
  stdout :: string
  stderr :: string
  fs_after :: filesystem

record env =
  shell :: "string \<Rightarrow> string option \<Rightarrow> world \<Rightarrow> completed"
  decode :: "string \<Rightarrow> string option"
  exc_str :: "pyerror \<Rightarrow> string"
  decodable :: "string \<Rightarrow> bool"
  stat_error :: "filesystem \<Rightarrow> path \<Rightarrow> pyerror option"
  interrupt :: "world \<Rightarrow> bool"

definition emit :: "event \<Rightarrow> world \<Rightarrow> world" where
  "emit e w = w\<lparr>trace := trace w @ [e]\<rparr>"

definition logging_info :: "string \<Rightarrow> world \<Rightarrow> world" where
  "logging_info msg w = emit (Log INFO msg) w"

definition logging_error :: "string \<Rightarrow> world \<Rightarrow> world" where
  "logging_error msg w = emit (Log ERROR msg) w"

definition time_sleep :: "nat \<Rightarrow> world \<Rightarrow> world" where
  "time_sleep ms w = emit (Sleep ms) w"

text \<open>The current directory and the root directory always exist.\<close>

definition exists_path :: "filesystem \<Rightarrow> path \<Rightarrow> bool" where
  "exists_path f p = (parts p = [] \<or> f p \<noteq> None)"

definition is_dir :: "filesystem \<Rightarrow> path \<Rightarrow> bool" where
  "is_dir f p = (parts p = [] \<or> f p = Some Dir)"

text \<open>
  \<open>Path(p).exists()\<close> calls \<open>os.stat\<close>. It answers \<open>False\<close> when the path is absent
  (errno ENOENT, ENOTDIR, EBADF, ELOOP) and re-raises every other \<open>OSError\<close>, such as a
  name that is too long (ENAMETOOLONG) or a directory that may not be searched (EACCES).
\<close>

definition Path_exists :: "env \<Rightarrow> filesystem \<Rightarrow> path \<Rightarrow> pyerror + bool" where
  "Path_exists E f p =
     (case stat_error E f p of
        Some e \<Rightarrow> Inl e
      | None \<Rightarrow> Inr (exists_path f p))"

subsection \<open>subprocess\<close>

text \<open>
  \<open>subprocess.run(command, shell=True, cwd=cwd, check=True, stdout=PIPE, stderr=PIPE)\<close>:
  a working directory that is missing or is a file makes the spawn itself fail; an
  interrupt of the user while the program waits for the command raises
  \<open>KeyboardInterrupt\<close>; a non-zero exit status raises \<open>CalledProcessError\<close> because of
  \<open>check=True\<close>. The interrupt is represented here only, where the Command Runner
  waits. Python raises it in the main thread; the tasks of the executor call the same
  function from a worker thread, where the parameter is to be read as false.
\<close>

definition wait_for :: "env \<Rightarrow> string \<Rightarrow> string option \<Rightarrow> world \<Rightarrow> completed outcome" where
  "wait_for E command cwd w1 =
     (let r = shell E command cwd w1; w2 = w1\<lparr>fs := fs_after r\<rparr>
      in if interrupt E w1 then (Inl KeyboardInterrupt, w2)
         else if returncode r \<noteq> 0
         then (Inl (CalledProcessError command (returncode r) (stdout r) (stderr r)), w2)
         else (Inr r, w2))"

definition subprocess_run :: "env \<Rightarrow> string \<Rightarrow> string option \<Rightarrow> world \<Rightarrow> completed outcome" where
  "subprocess_run E command cwd w =
     (let w1 = emit (Run command cwd) w
      in case cwd of
           Some d \<Rightarrow>
             if \<not> exists_path (fs w1) (Path d) then (Inl (FileNotFoundError d), w1)
             else if \<not> is_dir (fs w1) (Path d) then (Inl (NotADirectoryError d), w1)
             else wait_for E command cwd w1
         | None \<Rightarrow> wait_for E command cwd w1)"

text \<open>\<open>subprocess.call(command, shell=True, stdout=DEVNULL, stderr=DEVNULL)\<close> returns the exit status.\<close>

definition subprocess_call :: "env \<Rightarrow> string \<Rightarrow> world \<Rightarrow> int \<times> world" where
  "subprocess_call E command w =
     (let w1 = emit (Call command) w; r = shell E command None w1
      in (returncode r, w1\<lparr>fs := fs_after r\<rparr>))"

subsection \<open>The Command Runner\<close>

text \<open>The body of \<open>run_command\<close>, before the \<open>@retry\<close> decorator is applied.\<close>

definition run_command_body :: "env \<Rightarrow> string \<Rightarrow> string option \<Rightarrow> world \<Rightarrow> unit outcome" where
  "run_command_body E command cwd w =
     (let w1 = logging_info (''Running command: '' @ command) w
      in case subprocess_run E command cwd w1 of
           (Inr result, w2) \<Rightarrow>
             (case decode E (stdout result) of
                None \<Rightarrow> (Inl UnicodeDecodeError, w2)
              | Some s \<Rightarrow> (Inr (), logging_info s w2))
         | (Inl (CalledProcessError c rc out err), w2) \<Rightarrow>
             (let w3 = logging_error (''Error occurred while running command: ''
                          @ exc_str E (CalledProcessError c rc out err)) w2
              in case decode E err of
                   None \<Rightarrow> (Inl UnicodeDecodeError, w3)
                 | Some s \<Rightarrow> (Inl (CalledProcessError c rc out err), logging_error s w3))
         | (Inl e, w2) \<Rightarrow> (Inl e, w2))"

text \<open>
  The loop of \<open>retrying.Retrying.call\<close> with \<open>stop_max_attempt_number\<close> and
  \<open>wait_fixed\<close>: every exception rejects the attempt (the loop catches with a bare
  \<open>except\<close>, so a \<open>KeyboardInterrupt\<close> too); after a rejected attempt the loop re-raises
  when the attempt number has reached the maximum, and sleeps and tries again otherwise.
\<close>

function retry_call :: "nat \<Rightarrow> nat \<Rightarrow> (world \<Rightarrow> 'a outcome) \<Rightarrow> nat \<Rightarrow> world \<Rightarrow> 'a outcome" where
  "retry_call stop_max_attempt_number wait_fixed fn attempt_number w =
     (case fn w of
        (Inr v, w1) \<Rightarrow> (Inr v, w1)
      | (Inl e, w1) \<Rightarrow>
          if attempt_number \<ge> stop_max_attempt_number then (Inl e, w1)
          else retry_call stop_max_attempt_number wait_fixed fn (attempt_number + 1)
                 (time_sleep wait_fixed w1))"
  by pat_completeness auto
termination
  by (relation "measure (\<lambda>(sm, wf, fn, n, w). sm - n)") auto

declare retry_call.simps [simp del]

definition run_command :: "env \<Rightarrow> string \<Rightarrow> string option \<Rightarrow> world \<Rightarrow> unit outcome" where
  "run_command E command cwd w = retry_call 3 5000 (run_command_body E command cwd) 1 w"

subsection \<open>Text files\<close>

text \<open>
  \<open>open(name, 'r')\<close> reads with universal newlines: \<open>\r\n\<close> and \<open>\r\<close> arrive as
  \<open>\n\<close>. \<open>readlines()\<close> cuts the text after every \<open>\n\<close> and keeps the terminators;
  \<open>writelines\<close> writes the strings one after the other (POSIX: no translation on output).
  A file holds bytes. Reading decodes them with the codec of the locale and raises
  \<open>UnicodeDecodeError\<close> when they do not decode; a decoded text is represented by the
  bytes that encode it, so that writing it gives these bytes back. This is exact for the
  codecs a POSIX locale has (UTF-8, ASCII, Latin-1 and the like), in which \<open>\r\<close> and
  \<open>\n\<close> are single bytes that occur in no other character.
\<close>

definition LF :: char where "LF = CHR 0x0A"
definition CR :: char where "CR = CHR 0x0D"

fun universal_newlines :: "string \<Rightarrow> string" where
  "universal_newlines [] = []"
| "universal_newlines [c] = (if c = CR then [LF] else [c])"
| "universal_newlines (c # d # cs) =
     (if c = CR then (if d = LF then LF # universal_newlines cs
                      else LF # universal_newlines (d # cs))
      else c # universal_newlines (d # cs))"

fun lines_of :: "string \<Rightarrow> string list" where
  "lines_of [] = []"
| "lines_of (c # cs) =
     (if c = LF then [c] # lines_of cs
      else (case lines_of cs of [] \<Rightarrow> [[c]] | l # ls \<Rightarrow> (c # l) # ls))"

definition readlines :: "string \<Rightarrow> string list" where
  "readlines content = lines_of (universal_newlines content)"

text \<open>\<open>with open(name, 'r') as file: file.read()\<close>, before the newline translation.\<close>

definition open_read :: "env \<Rightarrow> path \<Rightarrow> world \<Rightarrow> string outcome" where
  "open_read E p w =
     (let w1 = emit (Open p ''r'') w
      in if parts p = [] then (Inl (IsADirectoryError (path_str p)), w1)
         else case fs w1 p of
                None \<Rightarrow> (Inl (FileNotFoundError (path_str p)), w1)
              | Some Dir \<Rightarrow> (Inl (IsADirectoryError (path_str p)), w1)
              | Some (File content) \<Rightarrow>
                  if decodable E content then (Inr content, w1)
                  else (Inl UnicodeDecodeError, w1))"

definition open_writelines :: "path \<Rightarrow> string list \<Rightarrow> world \<Rightarrow> unit outcome" where
  "open_writelines p ls w =
     (let w1 = emit (Open p ''w'') w
      in if parts p = [] then (Inl (IsADirectoryError (path_str p)), w1)
         else if \<not> exists_path (fs w1) (parent p) then (Inl (FileNotFoundError (path_str p)), w1)
         else if \<not> is_dir (fs w1) (parent p) then (Inl (NotADirectoryError (path_str p)), w1)
         else if fs w1 p = Some Dir then (Inl (IsADirectoryError (path_str p)), w1)
         else (Inr (), w1\<lparr>fs := (fs w1)(p \<mapsto> File (concat ls))\<rparr>))"

definition os_remove :: "path \<Rightarrow> world \<Rightarrow> unit outcome" where
  "os_remove p w =
     (let w1 = emit (Remove p) w
      in if parts p = [] then (Inl (IsADirectoryError (path_str p)), w1)
         else case fs w1 p of
                None \<Rightarrow> (Inl (FileNotFoundError (path_str p)), w1)
              | Some Dir \<Rightarrow> (Inl (IsADirectoryError (path_str p)), w1)
              | Some (File content) \<Rightarrow> (Inr (), w1\<lparr>fs := (fs w1)(p := None)\<rparr>))"

subsection \<open>Path.mkdir(parents=True, exist_ok=True)\<close>

definition os_mkdir :: "path \<Rightarrow> filesystem \<Rightarrow> (pyerror + unit) \<times> filesystem" where
  "os_mkdir p f =
     (if exists_path f p then (Inl (FileExistsError (path_str p)), f)
      else if \<not> exists_path f (parent p) then (Inl (FileNotFoundError (path_str p)), f)
      else if \<not> is_dir f (parent p) then (Inl (NotADirectoryError (path_str p)), f)
      else (Inr (), f(p \<mapsto> Dir)))"

function mkdir_parents :: "path \<Rightarrow> filesystem \<Rightarrow> (pyerror + unit) \<times> filesystem" where
  "mkdir_parents p f =
     (case os_mkdir p f of
        (Inr u, f1) \<Rightarrow> (Inr u, f1)
      | (Inl (FileNotFoundError m), f1) \<Rightarrow>
          if parent p = p then (Inl (FileNotFoundError m), f1)
          else (case mkdir_parents (parent p) f1 of
                  (Inl e, f2) \<Rightarrow> (Inl e, f2)
                | (Inr u, f2) \<Rightarrow>
                    (case os_mkdir p f2 of
                       (Inr u, f3) \<Rightarrow> (Inr u, f3)
                     | (Inl (FileNotFoundError m'), f3) \<Rightarrow> (Inl (FileNotFoundError m'), f3)
                     | (Inl e, f3) \<Rightarrow> if is_dir f3 p then (Inr (), f3) else (Inl e, f3)))
      | (Inl e, f1) \<Rightarrow> if is_dir f1 p then (Inr (), f1) else (Inl e, f1))"
  by pat_completeness auto
termination
proof (relation "measure (\<lambda>(p, f). length (parts p))")
  show "wf (measure (\<lambda>(p, f). length (parts p)))" by simp
next
  fix p :: path and f :: filesystem and x y x1 x2
  assume "parent p \<noteq> p"
  then have "parts p \<noteq> []"
    by (cases p) (auto simp: parent_def)
  then show "((parent p, y), (p, f)) \<in> measure (\<lambda>(p, f). length (parts p))"
    by (simp add: parent_def)
qed

declare mkdir_parents.simps [simp del]

definition Path_mkdir :: "path \<Rightarrow> world \<Rightarrow> unit outcome" where
  "Path_mkdir p w =
     (let w1 = emit (Mkdir p) w
      in case mkdir_parents p (fs w1) of (r, f) \<Rightarrow> (r, w1\<lparr>fs := f\<rparr>))"

subsection \<open>Dependency Installer, Repository Fetcher, URL Collector, Scan Runner\<close>

definition check_dependency :: "env \<Rightarrow> string \<Rightarrow> string \<Rightarrow> world \<Rightarrow> unit outcome" where
  "check_dependency E command install_command w =
     (case subprocess_call E command w of
        (rc, w1) \<Rightarrow>
          if rc \<noteq> 0
          then run_command E install_command None
                 (logging_info (command @ '' not found. Installing...'') w1)
          else (Inr (), w1))"

definition clone_repo :: "env \<Rightarrow> string \<Rightarrow> string \<Rightarrow> world \<Rightarrow> unit outcome" where
  "clone_repo E repo_url clone_dir w =
     (case Path_exists E (fs w) (Path clone_dir) of
        Inl e \<Rightarrow> (Inl e, w)
      | Inr found \<Rightarrow>
          if \<not> found
          then run_command E (''git clone '' @ repo_url @ '' '' @ clone_dir) None w
          else (Inr (), logging_info (''Repository '' @ clone_dir @ '' already exists.'') w))"

definition temp_file :: string where
  "temp_file = ''temp_urls.txt''"

definition collect_urls :: "env \<Rightarrow> string \<Rightarrow> string \<Rightarrow> world \<Rightarrow> unit outcome" where
  "collect_urls E domain output_dir w =
     (let w1 = logging_info (''Collecting URLs for domain: '' @ domain) w
      in case run_command E (''python ParamSpider/paramspider.py -d '' @ domain
                               @ '' -o '' @ temp_file) None w1 of
           (Inl e, w2) \<Rightarrow> (Inl e, w2)
         | (Inr u, w2) \<Rightarrow>
             (case open_read E (Path temp_file) w2 of
                (Inl e, w3) \<Rightarrow> (Inl e, w3)
              | (Inr content, w3) \<Rightarrow>
                  (let urls = readlines content;
                       txt_file = joinpath (Path output_dir) ''urls.txt''
                   in case open_writelines txt_file urls w3 of
                        (Inl e, w4) \<Rightarrow> (Inl e, w4)
                      | (Inr u, w4) \<Rightarrow>
                          (case os_remove (Path temp_file) w4 of
                             (Inl e, w5) \<Rightarrow> (Inl e, w5)
                           | (Inr u, w5) \<Rightarrow>
                               (Inr (), logging_info (''URLs saved to '' @ path_str txt_file) w5)))))"

definition run_nuclei :: "env \<Rightarrow> pathlike \<Rightarrow> string \<Rightarrow> world \<Rightarrow> unit outcome" where
  "run_nuclei E url_file template_dir w =
     (let w1 = logging_info (''Running Nuclei with templates from: '' @ template_dir) w
      in case Path_exists E (fs w1) (to_Path url_file) of
           Inl e \<Rightarrow> (Inl e, w1)
         | Inr url_found \<Rightarrow>
             if \<not> url_found
             then (Inl (FileNotFoundError (''URL file not found: '' @ format_pathlike url_file)),
                   logging_error (''URL file not found: '' @ format_pathlike url_file) w1)
             else
               (case Path_exists E (fs w1) (Path template_dir) of
                  Inl e \<Rightarrow> (Inl e, w1)
                | Inr template_found \<Rightarrow>
                    if \<not> template_found
                    then (Inl (FileNotFoundError
                                (''Template directory not found: '' @ template_dir)),
                          logging_error (''Template directory not found: '' @ template_dir) w1)
                    else run_command E
                           (''nuclei -l '' @ format_pathlike url_file @ '' -t '' @ template_dir)
                           None w1))"

subsection \<open>Orchestrator\<close>

definition and_then :: "'a outcome \<Rightarrow> ('a \<Rightarrow> world \<Rightarrow> 'b outcome) \<Rightarrow> 'b outcome" where
  "and_then r k = (case r of (Inl e, w) \<Rightarrow> (Inl e, w) | (Inr x, w) \<Rightarrow> k x w)"

text \<open>
  \<open>executor.submit(fn, ...)\<close> hands the call to a worker thread and returns a future;
  \<open>future.result()\<close> blocks until the worker has run the call, then returns its value or
  raises its exception. In this functional reading the effects of the call take place
  while the caller waits in \<open>result()\<close>.
\<close>

datatype 'a future = Future "world \<Rightarrow> 'a outcome"

definition submit :: "(world \<Rightarrow> 'a outcome) \<Rightarrow> 'a future" where
  "submit fn = Future fn"

fun future_result :: "'a future \<Rightarrow> world \<Rightarrow> 'a outcome" where
  "future_result (Future fn) w = fn w"

definition executor_block :: "env \<Rightarrow> string \<Rightarrow> string \<Rightarrow> string \<Rightarrow> world \<Rightarrow> unit outcome" where
  "executor_block E domain output_dir templates_dir w =
     (let future_collect = submit (collect_urls E domain output_dir)
      in and_then (future_result future_collect w) (\<lambda>u w1.
           let txt_file = joinpath (Path output_dir) ''urls.txt'';
               future_nuclei = submit (run_nuclei E (PathObj txt_file) templates_dir)
           in future_result future_nuclei w1))"

definition process_target :: "env \<Rightarrow> string \<Rightarrow> string \<Rightarrow> string \<Rightarrow> world \<Rightarrow> unit outcome" where
  "process_target E domain output_dir templates_dir w =
     and_then (Path_mkdir (Path output_dir) w) (\<lambda>u w1.
     and_then (clone_repo E ''https://github.com/0xKayala/ParamSpider.git'' ''ParamSpider'' w1) (\<lambda>u w2.
     and_then (run_command E ''pip install -r ParamSpider/requirements.txt'' None w2) (\<lambda>u w3.
     and_then (clone_repo E ''https://github.com/MuhammadWaseem29/Fuzzingtemplates-.git''
                 templates_dir w3) (\<lambda>u w4.
     and_then (check_dependency E ''nuclei -version''
                 ''go install -v github.com/projectdiscovery/nuclei/v2/cmd/nuclei@latest'' w4) (\<lambda>u w5.
     executor_block E domain output_dir templates_dir w5)))))"

text \<open>
  \<open>main\<close> after \<open>parser.parse_args()\<close> has returned: the parsed arguments are the input.
  The result says how the process ends: with the status of \<open>sys.exit(1)\<close> in the handler,
  with status 0 when \<open>main\<close> returns, or with an exception that \<open>except Exception\<close>
  does not catch and that leaves \<open>main\<close>, upon which the interpreter ends the process
  itself.
\<close>

datatype exit = Exit int | Uncaught pyerror

record args =
  args_domain :: string
  args_output_dir :: string
  args_templates :: string

definition setup_logging :: "world \<Rightarrow> world" where
  "setup_logging w = w"

definition banner :: "world \<Rightarrow> world" where
  "banner w = logging_info ''SpiderScan started.'' (emit PrintBanner w)"

definition main :: "env \<Rightarrow> args \<Rightarrow> world \<Rightarrow> exit \<times> world" where
  "main E a w =
     (let w1 = banner (setup_logging w)
      in case process_target E (args_domain a) (args_output_dir a) (args_templates a) w1 of
           (Inr u, w2) \<Rightarrow> (Exit 0, logging_info ''SpiderScan completed successfully.'' w2)
         | (Inl e, w2) \<Rightarrow>
             if is_Exception e
             then (Exit 1, logging_error (''SpiderScan encountered an error: '' @ exc_str E e) w2)
             else (Uncaught e, w2))"

subsection \<open>Reading the trace\<close>

definition executed :: "event list \<Rightarrow> string list" where
  "executed tr = concat (map (\<lambda>e. case e of Run c d \<Rightarrow> [c] | _ \<Rightarrow> []) tr)"

definition called :: "event list \<Rightarrow> string list" where
  "called tr = concat (map (\<lambda>e. case e of Call c \<Rightarrow> [c] | _ \<Rightarrow> []) tr)"

definition sleeps :: "event list \<Rightarrow> nat list" where
  "sleeps tr = concat (map (\<lambda>e. case e of Sleep ms \<Rightarrow> [ms] | _ \<Rightarrow> []) tr)"

definition file_ops :: "event list \<Rightarrow> event list" where
  "file_ops tr = filter (\<lambda>e. case e of Mkdir p \<Rightarrow> True | Open p m \<Rightarrow> True | Remove p \<Rightarrow> True
                             | _ \<Rightarrow> False) tr"

definition is_log :: "event \<Rightarrow> bool" where
  "is_log e = (case e of Log l m \<Rightarrow> True | _ \<Rightarrow> False)"

text \<open>
  The events of one attempt of the Command Runner: the announcement, the execution and
  then log records only.
\<close>

definition attempt_trace :: "string \<Rightarrow> string option \<Rightarrow> event list \<Rightarrow> bool" where
  "attempt_trace command cwd a =
     (case a of
        e1 # e2 # ls \<Rightarrow>
          e1 = Log INFO (''Running command: '' @ command) \<and> e2 = Run command cwd
          \<and> list_all is_log ls
      | _ \<Rightarrow> False)"

text \<open>The events added between an earlier world and a later one.\<close>

definition new_events :: "world \<Rightarrow> world \<Rightarrow> event list" where
  "new_events w w' = drop (length (trace w)) (trace w')"

subsection \<open>The executor block with its worker threads\<close>

text \<open>
  The sequential call chain that the specification compares the executor block with:
  \<open>collect_urls(domain, output_dir); run_nuclei(output_dir / 'urls.txt', templates_dir)\<close>.
\<close>

definition sequential_chain :: "env \<Rightarrow> string \<Rightarrow> string \<Rightarrow> string \<Rightarrow> world \<Rightarrow> unit outcome" where
  "sequential_chain E domain output_dir templates_dir w =
     (case collect_urls E domain output_dir w of
        (Inl e, w1) \<Rightarrow> (Inl e, w1)
      | (Inr u, w1) \<Rightarrow>
          run_nuclei E (PathObj (joinpath (Path output_dir) ''urls.txt'')) templates_dir w1)"

text \<open>
  A finer model of lines 112 to 118, with the scheduling of the pool made explicit. The
  main thread walks through the four statements of the \<open>with\<close> block and then through
  the shutdown of the executor, which waits for every submitted future. A worker may
  pick up a pending future at any moment and finish a running one at any moment; the
  effects of a task on the world take place when the worker finishes it.
\<close>

datatype task_state = Pending | Running | Done "pyerror + unit"

datatype pc =
    SubmitCollect
  | ResultCollect
  | SubmitNuclei
  | ResultNuclei
  | Shutdown "pyerror + unit"
  | Exited "pyerror + unit"

record config =
  pc :: pc
  future_collect :: "task_state option"
  future_nuclei :: "task_state option"
  cworld :: world

definition initial :: "world \<Rightarrow> config" where
  "initial w = \<lparr>pc = SubmitCollect, future_collect = None, future_nuclei = None, cworld = w\<rparr>"

definition settled :: "task_state option \<Rightarrow> bool" where
  "settled t = (case t of None \<Rightarrow> True | Some (Done r) \<Rightarrow> True | _ \<Rightarrow> False)"

definition main_thread :: "config \<Rightarrow> config option" where
  "main_thread c =
     (case pc c of
        SubmitCollect \<Rightarrow> Some (c\<lparr>pc := ResultCollect, future_collect := Some Pending\<rparr>)
      | ResultCollect \<Rightarrow>
          (case future_collect c of
             Some (Done (Inr u)) \<Rightarrow> Some (c\<lparr>pc := SubmitNuclei\<rparr>)
           | Some (Done (Inl e)) \<Rightarrow> Some (c\<lparr>pc := Shutdown (Inl e)\<rparr>)
           | _ \<Rightarrow> None)
      | SubmitNuclei \<Rightarrow> Some (c\<lparr>pc := ResultNuclei, future_nuclei := Some Pending\<rparr>)
      | ResultNuclei \<Rightarrow>
          (case future_nuclei c of
             Some (Done r) \<Rightarrow> Some (c\<lparr>pc := Shutdown r\<rparr>)
           | _ \<Rightarrow> None)
      | Shutdown r \<Rightarrow>
          if settled (future_collect c) \<and> settled (future_nuclei c)
          then Some (c\<lparr>pc := Exited r\<rparr>) else None
      | Exited r \<Rightarrow> None)"

definition worker_collect :: "env \<Rightarrow> string \<Rightarrow> string \<Rightarrow> config \<Rightarrow> config option" where
  "worker_collect E domain output_dir c =
     (case future_collect c of
        Some Pending \<Rightarrow> Some (c\<lparr>future_collect := Some Running\<rparr>)
      | Some Running \<Rightarrow>
          (case collect_urls E domain output_dir (cworld c) of
             (r, w') \<Rightarrow> Some (c\<lparr>future_collect := Some (Done r), cworld := w'\<rparr>))
      | _ \<Rightarrow> None)"

definition worker_nuclei :: "env \<Rightarrow> string \<Rightarrow> string \<Rightarrow> config \<Rightarrow> config option" where
  "worker_nuclei E output_dir templates_dir c =
     (case future_nuclei c of
        Some Pending \<Rightarrow> Some (c\<lparr>future_nuclei := Some Running\<rparr>)
      | Some Running \<Rightarrow>
          (case run_nuclei E (PathObj (joinpath (Path output_dir) ''urls.txt''))
                  templates_dir (cworld c) of
             (r, w') \<Rightarrow> Some (c\<lparr>future_nuclei := Some (Done r), cworld := w'\<rparr>))
      | _ \<Rightarrow> None)"

definition step :: "env \<Rightarrow> string \<Rightarrow> string \<Rightarrow> string \<Rightarrow> config \<Rightarrow> config \<Rightarrow> bool" where
  "step E domain output_dir templates_dir c c' =
     (main_thread c = Some c'
      \<or> worker_collect E domain output_dir c = Some c'
      \<or> worker_nuclei E output_dir templates_dir c = Some c')"

definition task_rank :: "task_state option \<Rightarrow> nat" where
  "task_rank t = (case t of None \<Rightarrow> 2 | Some Pending \<Rightarrow> 2 | Some Running \<Rightarrow> 1 | Some (Done r) \<Rightarrow> 0)"

definition pc_rank :: "pc \<Rightarrow> nat" where
  "pc_rank l = (case l of SubmitCollect \<Rightarrow> 15 | ResultCollect \<Rightarrow> 12 | SubmitNuclei \<Rightarrow> 9
                | ResultNuclei \<Rightarrow> 6 | Shutdown r \<Rightarrow> 3 | Exited r \<Rightarrow> 0)"

definition rank :: "config \<Rightarrow> nat" where
  "rank c = pc_rank (pc c) + task_rank (future_collect c) + task_rank (future_nuclei c)"

text \<open>
  What holds of every configuration the block can reach from the world \<open>w\<close>, location by
  location.
\<close>

definition block_inv :: "env \<Rightarrow> string \<Rightarrow> string \<Rightarrow> string \<Rightarrow> world \<Rightarrow> config \<Rightarrow> bool" where
  "block_inv E domain output_dir templates_dir w c =
     (let cu = collect_urls E domain output_dir w;
          rn = run_nuclei E (PathObj (joinpath (Path output_dir) ''urls.txt'')) templates_dir (snd cu)
      in case pc c of
           SubmitCollect \<Rightarrow>
             future_collect c = None \<and> future_nuclei c = None \<and> cworld c = w
         | ResultCollect \<Rightarrow>
             future_nuclei c = None
             \<and> ((future_collect c = Some Pending \<or> future_collect c = Some Running) \<and> cworld c = w
                \<or> future_collect c = Some (Done (fst cu)) \<and> cworld c = snd cu)
         | SubmitNuclei \<Rightarrow>
             future_collect c = Some (Done (Inr ())) \<and> fst cu = Inr ()
             \<and> future_nuclei c = None \<and> cworld c = snd cu
         | ResultNuclei \<Rightarrow>
             future_collect c = Some (Done (Inr ())) \<and> fst cu = Inr ()
             \<and> ((future_nuclei c = Some Pending \<or> future_nuclei c = Some Running)
                   \<and> cworld c = snd cu
                \<or> future_nuclei c = Some (Done (fst rn)) \<and> cworld c = snd rn)
         | Shutdown r \<Rightarrow>
             settled (future_collect c) \<and> settled (future_nuclei c)
             \<and> (future_nuclei c \<noteq> None \<longrightarrow> future_collect c = Some (Done (Inr ())))
             \<and> (r, cworld c) = sequential_chain E domain output_dir templates_dir w
         | Exited r \<Rightarrow>
             settled (future_collect c) \<and> settled (future_nuclei c)
             \<and> (future_nuclei c \<noteq> None \<longrightarrow> future_collect c = Some (Done (Inr ())))
             \<and> (r, cworld c) = sequential_chain E domain output_dir templates_dir w)"

subsection \<open>Concrete environments\<close>

text \<open>
  An empty file system and one with an output directory, a URL list and a template
  directory. A shell on which every command fails; one on which every command succeeds
  and leaves a given discovery output and a template directory behind, with an output of
  two lines, an output with carriage returns, an output that does not decode and a
  standard output that does not decode; one during which the user interrupts every
  command. An operating system that refuses names of more than 255 bytes.
\<close>

definition w_empty :: world where
  "w_empty = \<lparr>fs = (\<lambda>p. None), trace = []\<rparr>"

definition w_ready :: world where
  "w_ready = \<lparr>fs = (\<lambda>p. None)(Path ''out/urls.txt'' \<mapsto> File [], Path ''tpl'' \<mapsto> Dir,
                                 Path ''out'' \<mapsto> Dir), trace = []\<rparr>"

definition E_fail :: env where
  "E_fail = \<lparr>shell = (\<lambda>c d v. \<lparr>returncode = 1, stdout = [], stderr = [], fs_after = fs v\<rparr>),
             decode = Some, exc_str = (\<lambda>e. ''error''), decodable = (\<lambda>b. True),
             stat_error = (\<lambda>f p. None), interrupt = (\<lambda>v. False)\<rparr>"

definition fs_out :: "string \<Rightarrow> filesystem \<Rightarrow> filesystem" where
  "fs_out content f = f(Path ''temp_urls.txt'' \<mapsto> File content, Path ''tpl'' \<mapsto> Dir)"

definition E_out :: "string \<Rightarrow> env" where
  "E_out content =
     \<lparr>shell = (\<lambda>c d v. \<lparr>returncode = 0, stdout = [], stderr = [],
                        fs_after = fs_out content (fs v)\<rparr>),
      decode = Some, exc_str = (\<lambda>e. ''error''), decodable = (\<lambda>b. True),
      stat_error = (\<lambda>f p. None), interrupt = (\<lambda>v. False)\<rparr>"

definition E_ok :: env where
  "E_ok = E_out [CHR ''a'', LF, CHR ''b'', LF]"

definition fs_ab :: "filesystem \<Rightarrow> filesystem" where
  "fs_ab = fs_out [CHR ''a'', LF, CHR ''b'', LF]"

definition E_cr :: env where
  "E_cr = E_out [CHR ''a'', CR, LF, CHR ''b'', CR, CHR ''c'']"

definition E_binary :: env where
  "E_binary = (E_out [CHR 0xFF, LF])\<lparr>decodable := (\<lambda>b. CHR 0xFF \<notin> set b)\<rparr>"

definition E_undecodable :: env where
  "E_undecodable = (E_out [CHR ''a'', LF])\<lparr>decode := (\<lambda>b. None)\<rparr>"

definition E_interrupted :: env where
  "E_interrupted = E_ok\<lparr>interrupt := (\<lambda>v. True)\<rparr>"

definition long_name :: string where
  "long_name = replicate 256 (CHR ''a'')"

definition E_name_max :: env where
  "E_name_max = E_ok\<lparr>stat_error :=
     (\<lambda>f p. if list_ex (\<lambda>c. 255 < length c) (parts p) then Some (OSError 36) else None)\<rparr>"

definition a_example :: args where
  "a_example = \<lparr>args_domain = ''example.com'', args_output_dir = ''out'', args_templates = ''tpl''\<rparr>"


section \<open>Properties\<close>

subsection \<open>Reading traces\<close>

lemma executed_simps [simp]:
  "executed [] = []"
  "executed (a @ b) = executed a @ executed b"
  "executed (Run c d # tr) = c # executed tr"
  "executed (Log l m # tr) = executed tr"
  "executed (Sleep n # tr) = executed tr"
  "executed (Call c # tr) = executed tr"
  "executed (PrintBanner # tr) = executed tr"
  "executed (Mkdir p # tr) = executed tr"
  "executed (Open p m # tr) = executed tr"
  "executed (Remove p # tr) = executed tr"
  by (simp_all add: executed_def)

lemma sleeps_simps [simp]:
  "sleeps [] = []"
  "sleeps (a @ b) = sleeps a @ sleeps b"
  "sleeps (Sleep n # tr) = n # sleeps tr"
  "sleeps (Log l m # tr) = sleeps tr"
  "sleeps (Run c d # tr) = sleeps tr"
  "sleeps (Call c # tr) = sleeps tr"
  "sleeps (PrintBanner # tr) = sleeps tr"
  "sleeps (Mkdir p # tr) = sleeps tr"
  "sleeps (Open p m # tr) = sleeps tr"
  "sleeps (Remove p # tr) = sleeps tr"
  by (simp_all add: sleeps_def)

lemma called_simps [simp]:
  "called [] = []"
  "called (a @ b) = called a @ called b"
  "called (Call c # tr) = c # called tr"
  "called (Log l m # tr) = called tr"
  "called (Sleep n # tr) = called tr"
  "called (Run c d # tr) = called tr"
  "called (PrintBanner # tr) = called tr"
  "called (Mkdir p # tr) = called tr"
  "called (Open p m # tr) = called tr"
  "called (Remove p # tr) = called tr"
  by (simp_all add: called_def)

lemma file_ops_simps [simp]:
  "file_ops [] = []"
  "file_ops (a @ b) = file_ops a @ file_ops b"
  "file_ops (Call c # tr) = file_ops tr"
  "file_ops (Log l m # tr) = file_ops tr"
  "file_ops (Sleep n # tr) = file_ops tr"
  "file_ops (Run c d # tr) = file_ops tr"
  "file_ops (PrintBanner # tr) = file_ops tr"
  "file_ops (Mkdir p # tr) = Mkdir p # file_ops tr"
  "file_ops (Open p m # tr) = Open p m # file_ops tr"
  "file_ops (Remove p # tr) = Remove p # file_ops tr"
  by (simp_all add: file_ops_def)

lemma logs_only:
  "list_all is_log ls \<Longrightarrow> executed ls = [] \<and> sleeps ls = [] \<and> called ls = [] \<and> file_ops ls = []"
  by (induction ls) (auto simp: is_log_def split: event.splits)

lemma attempt_trace_reads:
  "attempt_trace c cwd a \<Longrightarrow> executed a = [c] \<and> sleeps a = [] \<and> called a = [] \<and> file_ops a = []"
  by (auto simp: attempt_trace_def logs_only split: list.splits)

lemma new_events_append: "trace w' = trace w @ a \<Longrightarrow> new_events w w' = a"
  by (simp add: new_events_def)

lemma new_events_trans:
  assumes "trace w1 = trace w @ a" and "trace w' = trace w1 @ new_events w1 w'"
  shows "new_events w w' = a @ new_events w1 w'"
proof -
  have "trace w' = trace w @ (a @ new_events w1 w')" using assms by simp
  then show ?thesis by (rule new_events_append)
qed

lemma trace_emit [simp]: "trace (emit e w) = trace w @ [e]" and fs_emit [simp]: "fs (emit e w) = fs w"
  by (simp_all add: emit_def)

lemmas log_defs = logging_info_def logging_error_def time_sleep_def

lemma subprocess_run_trace:
  "subprocess_run E c cwd w = (r, w') \<Longrightarrow> trace w' = trace w @ [Run c cwd]"
  by (auto simp: subprocess_run_def wait_for_def Let_def split: option.splits if_splits)

lemma body_trace:
  assumes "run_command_body E c cwd w = (r, w')"
  shows "\<exists>a. trace w' = trace w @ a \<and> attempt_trace c cwd a"
proof -
  obtain r1 w1 where s: "subprocess_run E c cwd (logging_info (''Running command: '' @ c) w) = (r1, w1)"
    by (cases "subprocess_run E c cwd (logging_info (''Running command: '' @ c) w)")
  from subprocess_run_trace [OF s]
  have t: "trace w1 = trace w @ [Log INFO (''Running command: '' @ c), Run c cwd]"
    by (simp add: log_defs)
  from assms s t show ?thesis
    by (auto simp: run_command_body_def Let_def log_defs attempt_trace_def is_log_def
        split: sum.splits pyerror.splits option.splits)
qed

lemma subprocess_run_fails:
  assumes "\<And>v. returncode (shell E c cwd v) \<noteq> 0"
  shows "\<exists>e w'. subprocess_run E c cwd w = (Inl e, w')"
  using assms by (cases cwd) (simp_all add: subprocess_run_def wait_for_def Let_def)

lemma body_fails:
  assumes "\<And>v. returncode (shell E c cwd v) \<noteq> 0"
  shows "\<exists>e w'. run_command_body E c cwd w = (Inl e, w')"
proof -
  obtain e w1 where "subprocess_run E c cwd (logging_info (''Running command: '' @ c) w) = (Inl e, w1)"
    using subprocess_run_fails [OF assms] by blast
  then show ?thesis
    by (cases e) (simp_all add: run_command_body_def Let_def split: option.splits)
qed

lemma run_command_unfold:
  "run_command E c cwd w =
     (case run_command_body E c cwd w of
        (Inr v, w1) \<Rightarrow> (Inr v, w1)
      | (Inl e, w1) \<Rightarrow>
         (case run_command_body E c cwd (time_sleep 5000 w1) of
            (Inr v, w2) \<Rightarrow> (Inr v, w2)
          | (Inl e, w2) \<Rightarrow> run_command_body E c cwd (time_sleep 5000 w2)))"
  unfolding run_command_def
  apply (subst retry_call.simps)
  apply (subst retry_call.simps)
  apply (subst retry_call.simps)
  apply (auto split: prod.splits sum.splits)
  done


lemma run_command_shape:
  assumes "run_command E c cwd w = (r, w')"
  shows "\<exists>a1 a2 a3. attempt_trace c cwd a1 \<and> attempt_trace c cwd a2 \<and> attempt_trace c cwd a3 \<and>
     (trace w' = trace w @ a1 \<and> r = Inr ()
      \<or> trace w' = trace w @ a1 @ Sleep 5000 # a2 \<and> r = Inr ()
          \<and> fst (run_command_body E c cwd w) \<noteq> Inr ()
      \<or> trace w' = trace w @ a1 @ Sleep 5000 # a2 @ Sleep 5000 # a3
          \<and> fst (run_command_body E c cwd w) \<noteq> Inr ())"
proof -
  obtain r1 w1 where b1: "run_command_body E c cwd w = (r1, w1)" by force
  obtain r2 w2 where b2: "run_command_body E c cwd (time_sleep 5000 w1) = (r2, w2)" by force
  obtain r3 w3 where b3: "run_command_body E c cwd (time_sleep 5000 w2) = (r3, w3)" by force
  from body_trace [OF b1] obtain a1 where a1: "trace w1 = trace w @ a1" "attempt_trace c cwd a1" by blast
  from body_trace [OF b2] obtain a2 where a2: "trace w2 = trace w1 @ Sleep 5000 # a2" "attempt_trace c cwd a2"
    by (auto simp: log_defs)
  from body_trace [OF b3] obtain a3 where a3: "trace w3 = trace w2 @ Sleep 5000 # a3" "attempt_trace c cwd a3"
    by (auto simp: log_defs)
  from assms b1 b2 b3 a1 a2 a3 show ?thesis
    unfolding run_command_unfold
    by (auto split: sum.splits)
qed

lemma run_command_new_events:
  assumes "run_command E c cwd w = (r, w')"
  shows "\<exists>a1 a2 a3. attempt_trace c cwd a1 \<and> attempt_trace c cwd a2 \<and> attempt_trace c cwd a3 \<and>
     (new_events w w' = a1 \<and> r = Inr ()
      \<or> new_events w w' = a1 @ Sleep 5000 # a2 \<and> r = Inr ()
          \<and> fst (run_command_body E c cwd w) \<noteq> Inr ()
      \<or> new_events w w' = a1 @ Sleep 5000 # a2 @ Sleep 5000 # a3
          \<and> fst (run_command_body E c cwd w) \<noteq> Inr ())"
  using run_command_shape [OF assms]
  by (elim exE conjE disjE) (blast dest: new_events_append)+

lemma run_command_extends:
  assumes "run_command E c cwd w = (r, w')"
  shows "trace w' = trace w @ new_events w w'"
  using run_command_shape [OF assms]
  by (elim exE conjE disjE) (simp_all add: new_events_def)

lemma run_command_reads:
  assumes "run_command E c cwd w = (r, w')"
  shows "(executed (new_events w w') = [c] \<or> executed (new_events w w') = [c, c]
          \<or> executed (new_events w w') = [c, c, c])
       \<and> called (new_events w w') = [] \<and> file_ops (new_events w w') = []
       \<and> (fst (run_command_body E c cwd w) = Inr () \<longrightarrow> executed (new_events w w') = [c])
       \<and> (executed (new_events w w') \<noteq> [c, c, c] \<longrightarrow> r = Inr ())"
  using run_command_new_events [OF assms]
  by (elim exE conjE disjE) (simp_all add: attempt_trace_reads)

lemma run_command_all_fail:
  assumes "\<And>v. returncode (shell E c cwd v) \<noteq> 0"
  shows "\<exists>e w' a1 a2 a3. run_command E c cwd w = (Inl e, w')
     \<and> new_events w w' = a1 @ Sleep 5000 # a2 @ Sleep 5000 # a3
     \<and> attempt_trace c cwd a1 \<and> attempt_trace c cwd a2 \<and> attempt_trace c cwd a3"
proof -
  obtain e1 w1 where b1: "run_command_body E c cwd w = (Inl e1, w1)"
    using body_fails [OF assms] by blast
  obtain e2 w2 where b2: "run_command_body E c cwd (time_sleep 5000 w1) = (Inl e2, w2)"
    using body_fails [OF assms] by blast
  obtain e3 w3 where b3: "run_command_body E c cwd (time_sleep 5000 w2) = (Inl e3, w3)"
    using body_fails [OF assms] by blast
  from body_trace [OF b1] obtain a1 where a1: "trace w1 = trace w @ a1" "attempt_trace c cwd a1" by blast
  from body_trace [OF b2] obtain a2 where a2: "trace w2 = trace w1 @ Sleep 5000 # a2" "attempt_trace c cwd a2"
    by (auto simp: log_defs)
  from body_trace [OF b3] obtain a3 where a3: "trace w3 = trace w2 @ Sleep 5000 # a3" "attempt_trace c cwd a3"
    by (auto simp: log_defs)
  have "run_command E c cwd w = (Inl e3, w3)"
    by (simp add: run_command_unfold b1 b2 b3)
  moreover have "new_events w w3 = a1 @ Sleep 5000 # a2 @ Sleep 5000 # a3"
    using a1 a2 a3 by (simp add: new_events_def)
  ultimately show ?thesis using a1 a2 a3 by blast
qed

text \<open>
  How often the Command Runner executes its command: once when the first attempt returns,
  twice when the first raises and the second returns, three times otherwise.
\<close>

lemma run_command_count:
  assumes "run_command E c cwd w = (r, w')"
  shows "(fst (run_command_body E c cwd w) = Inr () \<longrightarrow>
            r = Inr () \<and> executed (new_events w w') = [c])
       \<and> (fst (run_command_body E c cwd w) \<noteq> Inr ()
            \<and> fst (run_command_body E c cwd
                      (time_sleep 5000 (snd (run_command_body E c cwd w)))) = Inr () \<longrightarrow>
            r = Inr () \<and> executed (new_events w w') = [c, c])
       \<and> (fst (run_command_body E c cwd w) \<noteq> Inr ()
            \<and> fst (run_command_body E c cwd
                      (time_sleep 5000 (snd (run_command_body E c cwd w)))) \<noteq> Inr () \<longrightarrow>
            executed (new_events w w') = [c, c, c])"
proof -
  obtain r1 w1 where b1: "run_command_body E c cwd w = (r1, w1)" by force
  obtain r2 w2 where b2: "run_command_body E c cwd (time_sleep 5000 w1) = (r2, w2)" by force
  obtain r3 w3 where b3: "run_command_body E c cwd (time_sleep 5000 w2) = (r3, w3)" by force
  from body_trace [OF b1] obtain a1 where a1: "trace w1 = trace w @ a1" "attempt_trace c cwd a1" by blast
  from body_trace [OF b2] obtain a2 where a2: "trace w2 = trace w1 @ Sleep 5000 # a2" "attempt_trace c cwd a2"
    by (auto simp: log_defs)
  from body_trace [OF b3] obtain a3 where a3: "trace w3 = trace w2 @ Sleep 5000 # a3" "attempt_trace c cwd a3"
    by (auto simp: log_defs)
  have e1: "executed (new_events w w1) = [c]"
    using a1 by (simp add: new_events_def attempt_trace_reads)
  have e2: "executed (new_events w w2) = [c, c]"
    using a1 a2 by (simp add: new_events_def attempt_trace_reads)
  have e3: "executed (new_events w w3) = [c, c, c]"
    using a1 a2 a3 by (simp add: new_events_def attempt_trace_reads)
  show ?thesis
  proof (cases r1)
    case (Inr u)
    with assms b1 have "r = Inr ()" "w' = w1" by (simp_all add: run_command_unfold)
    with Inr b1 e1 show ?thesis by simp
  next
    case l1: (Inl x)
    show ?thesis
    proof (cases r2)
      case (Inr u)
      with assms b1 b2 l1 have "r = Inr ()" "w' = w2" by (simp_all add: run_command_unfold)
      with Inr l1 b1 b2 e2 show ?thesis by simp
    next
      case (Inl y)
      with assms b1 b2 b3 l1 have "w' = w3" by (simp add: run_command_unfold)
      with Inl l1 b1 b2 e3 show ?thesis by simp
    qed
  qed
qed

text \<open>
  An attempt in the current directory returns exactly when the user does not interrupt
  it, the command exits with status 0 and its output decodes.
\<close>

lemma attempt_returns_iff:
  "fst (run_command_body E c None w) = Inr () \<longleftrightarrow>
     \<not> interrupt E (emit (Run c None) (logging_info (''Running command: '' @ c) w))
     \<and> returncode (shell E c None
          (emit (Run c None) (logging_info (''Running command: '' @ c) w))) = 0
     \<and> decode E (stdout (shell E c None
          (emit (Run c None) (logging_info (''Running command: '' @ c) w)))) \<noteq> None"
  by (auto simp: run_command_body_def subprocess_run_def wait_for_def Let_def
      split: option.splits)

text \<open>
  Claim C2. A command whose every execution exits with a non-zero status is executed
  exactly three times by \<open>run_command\<close>, with one sleep of 5000 ms between consecutive
  attempts and none after the last, and \<open>run_command\<close> then raises.
\<close>

theorem C2_run_command_gives_up_after_three_attempts:
  assumes "\<And>v. returncode (shell E command cwd v) \<noteq> 0"
  shows "\<exists>e w' a1 a2 a3.
           run_command E command cwd w = (Inl e, w')
         \<and> new_events w w' = a1 @ Sleep 5000 # a2 @ Sleep 5000 # a3
         \<and> attempt_trace command cwd a1 \<and> attempt_trace command cwd a2
         \<and> attempt_trace command cwd a3
         \<and> executed (new_events w w') = [command, command, command]
         \<and> sleeps (new_events w w') = [5000, 5000]"
proof -
  from run_command_all_fail [OF assms, of w]
  obtain e w' a1 a2 a3 where h: "run_command E command cwd w = (Inl e, w')"
     "new_events w w' = a1 @ Sleep 5000 # a2 @ Sleep 5000 # a3"
     "attempt_trace command cwd a1" "attempt_trace command cwd a2" "attempt_trace command cwd a3"
    by blast
  from h(3-5) have "executed (a1 @ Sleep 5000 # a2 @ Sleep 5000 # a3) = [command, command, command]"
    and "sleeps (a1 @ Sleep 5000 # a2 @ Sleep 5000 # a3) = [5000, 5000]"
    by (simp_all add: attempt_trace_reads)
  with h show ?thesis by metis
qed

theorem C2_run_command_gives_up_witness:
  "(\<forall>v. returncode (shell E_fail ''false'' None v) \<noteq> 0)
   \<and> (\<exists>e w' a1 a2 a3.
           run_command E_fail ''false'' None w_empty = (Inl e, w')
         \<and> new_events w_empty w' = a1 @ Sleep 5000 # a2 @ Sleep 5000 # a3
         \<and> attempt_trace ''false'' None a1 \<and> attempt_trace ''false'' None a2
         \<and> attempt_trace ''false'' None a3
         \<and> executed (new_events w_empty w') = [''false'', ''false'', ''false'']
         \<and> sleeps (new_events w_empty w') = [5000, 5000])"
proof -
  have h: "\<And>v. returncode (shell E_fail ''false'' None v) \<noteq> 0"
    by (simp add: E_fail_def)
  from C2_run_command_gives_up_after_three_attempts [OF h, of w_empty] h
  show ?thesis by simp
qed

lemma subprocess_call_reads:
  "subprocess_call E c w = (rc, w1) \<Longrightarrow> trace w1 = trace w @ [Call c]"
  by (auto simp: subprocess_call_def Let_def)

text \<open>
  Claim C8. \<open>check_dependency\<close> runs the check command exactly once; it hands the
  install command to the Command Runner if and only if the check exits with a non-zero
  status, and runs nothing else when the check exits with zero.
\<close>

theorem C8_check_dependency:
  assumes "check_dependency E command install_command w = (r, w')"
  shows "called (new_events w w') = [command]
       \<and> (fst (subprocess_call E command w) \<noteq> 0 \<longleftrightarrow> executed (new_events w w') \<noteq> [])
       \<and> (fst (subprocess_call E command w) \<noteq> 0 \<longrightarrow>
            (r, w') = run_command E install_command None
                        (logging_info (command @ '' not found. Installing...'')
                           (snd (subprocess_call E command w)))
            \<and> set (executed (new_events w w')) = {install_command}
            \<and> length (executed (new_events w w')) \<le> 3)
       \<and> (fst (subprocess_call E command w) = 0 \<longrightarrow>
            r = Inr () \<and> w' = snd (subprocess_call E command w)
            \<and> new_events w w' = [Call command])"
proof -
  obtain rc w1 where c: "subprocess_call E command w = (rc, w1)" by force
  note t1 = subprocess_call_reads [OF c]
  show ?thesis
  proof (cases "rc = 0")
    case True
    with assms c t1 show ?thesis by (simp add: check_dependency_def new_events_def)
  next
    case False
    let ?w2 = "logging_info (command @ '' not found. Installing...'') w1"
    from False assms c have rc: "run_command E install_command None ?w2 = (r, w')"
      by (simp add: check_dependency_def)
    have ne: "new_events w w' = Call command # Log INFO (command @ '' not found. Installing...'') # new_events ?w2 w'"
      using new_events_trans [OF _ run_command_extends [OF rc], of w "[Call command, Log INFO (command @ '' not found. Installing...'')]"] t1
      by (simp add: log_defs)
    from run_command_reads [OF rc] False c rc show ?thesis
      unfolding ne by (elim conjE disjE) simp_all
  qed
qed

theorem C8_check_dependency_witness:
  "(\<exists>r w'. check_dependency E_fail ''nuclei -version'' ''go install'' w_empty = (r, w')
     \<and> fst (subprocess_call E_fail ''nuclei -version'' w_empty) \<noteq> 0
     \<and> called (new_events w_empty w') = [''nuclei -version'']
     \<and> set (executed (new_events w_empty w')) = {''go install''})
   \<and> (\<exists>r w'. check_dependency E_ok ''nuclei -version'' ''go install'' w_empty = (r, w')
     \<and> fst (subprocess_call E_ok ''nuclei -version'' w_empty) = 0
     \<and> r = Inr ()
     \<and> called (new_events w_empty w') = [''nuclei -version'']
     \<and> executed (new_events w_empty w') = [])"
proof -
  obtain r w' where h: "check_dependency E_fail ''nuclei -version'' ''go install'' w_empty = (r, w')"
    by force
  have "fst (subprocess_call E_fail ''nuclei -version'' w_empty) \<noteq> 0"
    by (simp add: subprocess_call_def E_fail_def Let_def)
  with C8_check_dependency [OF h] h have 1:
    "\<exists>r w'. check_dependency E_fail ''nuclei -version'' ''go install'' w_empty = (r, w')
     \<and> fst (subprocess_call E_fail ''nuclei -version'' w_empty) \<noteq> 0
     \<and> called (new_events w_empty w') = [''nuclei -version'']
     \<and> set (executed (new_events w_empty w')) = {''go install''}"
    by blast
  obtain r2 w2 where k: "check_dependency E_ok ''nuclei -version'' ''go install'' w_empty = (r2, w2)"
    by force
  have z: "fst (subprocess_call E_ok ''nuclei -version'' w_empty) = 0"
    by (simp add: subprocess_call_def E_ok_def E_out_def Let_def)
  with C8_check_dependency [OF k] k have 2:
    "\<exists>r w'. check_dependency E_ok ''nuclei -version'' ''go install'' w_empty = (r, w')
     \<and> fst (subprocess_call E_ok ''nuclei -version'' w_empty) = 0
     \<and> r = Inr ()
     \<and> called (new_events w_empty w') = [''nuclei -version'']
     \<and> executed (new_events w_empty w') = []"
    by blast
  from 1 2 show ?thesis by blast
qed


subsection \<open>Paths of the examples\<close>

lemma split_sep_plain: "CHR ''/'' \<notin> set s \<Longrightarrow> split_sep s = [s]"
  by (induction s) auto

lemma Path_plain:
  assumes "CHR ''/'' \<notin> set s" and "s \<noteq> []" and "s \<noteq> ''.''"
  shows "Path s = PosixPath [] [s]"
proof -
  have "take 2 s \<noteq> ''//''"
    using assms(1) set_take_subset [of 2 s] by (metis list.set_intros(1) subsetD)
  moreover have "take 1 s \<noteq> ''/''"
    using assms(1) set_take_subset [of 1 s] by (metis list.set_intros(1) subsetD)
  ultimately have "parse_root s = []"
    by (simp add: parse_root_def)
  with assms show ?thesis
    by (simp add: Path_def split_sep_plain)
qed

lemma Path_out_urls: "Path ''out/urls.txt'' = PosixPath [] [''out'', ''urls.txt'']"
  by (simp add: Path_def parse_root_def)

lemma Path_tpl: "Path ''tpl'' = PosixPath [] [''tpl'']"
  by (simp add: Path_plain)

lemma Path_out: "Path ''out'' = PosixPath [] [''out'']"
  by (simp add: Path_plain)

lemma Path_temp: "Path temp_file = PosixPath [] [''temp_urls.txt'']"
  by (simp add: Path_plain temp_file_def)

lemma Path_temp_lit: "Path ''temp_urls.txt'' = PosixPath [] [''temp_urls.txt'']"
  by (simp add: Path_plain)

lemma Path_urls: "Path ''urls.txt'' = PosixPath [] [''urls.txt'']"
  by (simp add: Path_plain)

lemma Path_missing: "Path ''missing'' = PosixPath [] [''missing'']"
  by (simp add: Path_plain)

lemma Path_ParamSpider: "Path ''ParamSpider'' = PosixPath [] [''ParamSpider'']"
  by (simp add: Path_plain)

lemma Path_long_name: "Path long_name = PosixPath [] [long_name]"
proof -
  have l: "length long_name = 256" by (simp add: long_name_def)
  have "long_name \<noteq> []" using l by auto
  moreover have "long_name \<noteq> ''.''"
  proof
    assume a: "long_name = ''.''"
    have "length long_name = length ''.''" using a by (rule arg_cong)
    with l show False by simp
  qed
  moreover have "CHR ''/'' \<notin> set long_name" by (simp add: long_name_def)
  ultimately show ?thesis using Path_plain by blast
qed

lemma stat_plain [simp]:
  "Path_exists E_fail f p = Inr (exists_path f p)"
  "Path_exists (E_out content) f p = Inr (exists_path f p)"
  "Path_exists E_ok f p = Inr (exists_path f p)"
  by (simp_all add: Path_exists_def E_fail_def E_out_def E_ok_def)

lemma length_long_name: "length long_name = 256"
  by (simp add: long_name_def)

lemma stat_long_name:
  "Path_exists E_name_max f (Path long_name) = Inl (OSError 36)"
  "Path_exists E_name_max f (Path ''out/urls.txt'') = Inr (exists_path f (Path ''out/urls.txt''))"
  by (simp_all add: Path_exists_def E_name_max_def Path_long_name Path_out_urls length_long_name)

lemma w_ready_exists:
  "exists_path (fs w_ready) (to_Path (Str ''out/urls.txt''))"
  "exists_path (fs w_ready) (Path ''tpl'')"
  "\<not> exists_path (fs w_ready) (Path ''missing'')"
  by (simp_all add: exists_path_def w_ready_def Path_missing Path_out_urls Path_tpl Path_out)

lemma w_empty_exists:
  "\<not> exists_path (fs w_empty) (Path ''tpl'')"
  "\<not> exists_path (fs w_empty) (Path ''out/urls.txt'')"
  "\<not> exists_path (fs w_empty) (Path long_name)"
  by (simp_all add: exists_path_def w_empty_def Path_tpl Path_out_urls Path_long_name)

lemma E_fail_always: "returncode (shell E_fail c d v) \<noteq> 0"
  by (simp add: E_fail_def)

lemma E_fail_body_value:
  "run_command_body E_fail c None v =
     (Inl (CalledProcessError c 1 [] []),
      \<lparr>fs = fs v,
       trace = trace v @ [Log INFO (''Running command: '' @ c), Run c None,
                          Log ERROR ''Error occurred while running command: error'',
                          Log ERROR []]\<rparr>)"
  by (simp add: run_command_body_def subprocess_run_def wait_for_def E_fail_def Let_def log_defs
      emit_def)

lemma E_fail_run:
  "\<exists>v'. run_command E_fail c None v = (Inl (CalledProcessError c 1 [] []), v')"
  by (simp add: run_command_unfold E_fail_body_value)

lemma E_out_body_value:
  "run_command_body (E_out content) c None v =
     (Inr (), \<lparr>fs = fs_out content (fs v),
               trace = trace v @ [Log INFO (''Running command: '' @ c), Run c None, Log INFO []]\<rparr>)"
  by (simp add: run_command_body_def subprocess_run_def wait_for_def E_out_def Let_def log_defs
      emit_def)

lemma E_out_run:
  "run_command (E_out content) c None v =
     (Inr (), \<lparr>fs = fs_out content (fs v),
               trace = trace v @ [Log INFO (''Running command: '' @ c), Run c None, Log INFO []]\<rparr>)"
  by (simp add: run_command_unfold E_out_body_value)

lemma E_ok_body: "fst (run_command_body E_ok c None v) = Inr ()"
  by (simp add: E_ok_def E_out_body_value)

subsection \<open>Repository Fetcher\<close>

text \<open>
  Claim C5, amended. When the existence test on \<open>clone_dir\<close> answers that the directory
  exists, \<open>clone_repo\<close> returns normally, leaves the file system as it is and adds one log
  record only. When the test itself raises, \<open>clone_repo\<close> raises that error and the world
  is untouched. When the test answers that the directory is missing, \<open>clone_repo\<close> is one
  call of the Command Runner with the \<open>git clone\<close> command, and touches no file itself;
  the command is executed once when the first attempt returns, twice when the first
  raises and the second returns, and three times otherwise.
\<close>

theorem C5_clone_repo:
  assumes "clone_repo E repo_url clone_dir w = (r, w')"
  shows "(Path_exists E (fs w) (Path clone_dir) = Inr True \<longrightarrow>
            r = Inr () \<and> fs w' = fs w
            \<and> new_events w w' = [Log INFO (''Repository '' @ clone_dir @ '' already exists.'')])
       \<and> (\<forall>e. Path_exists E (fs w) (Path clone_dir) = Inl e \<longrightarrow> r = Inl e \<and> w' = w)
       \<and> (Path_exists E (fs w) (Path clone_dir) = Inr False \<longrightarrow>
            (r, w') = run_command E (''git clone '' @ repo_url @ '' '' @ clone_dir) None w
            \<and> called (new_events w w') = [] \<and> file_ops (new_events w w') = []
            \<and> (fst (run_command_body E (''git clone '' @ repo_url @ '' '' @ clone_dir) None w)
                  = Inr () \<longrightarrow>
                 r = Inr ()
                 \<and> executed (new_events w w') = [''git clone '' @ repo_url @ '' '' @ clone_dir])
            \<and> (fst (run_command_body E (''git clone '' @ repo_url @ '' '' @ clone_dir) None w)
                  \<noteq> Inr ()
                \<and> fst (run_command_body E (''git clone '' @ repo_url @ '' '' @ clone_dir) None
                         (time_sleep 5000
                            (snd (run_command_body E
                                    (''git clone '' @ repo_url @ '' '' @ clone_dir) None w))))
                  = Inr () \<longrightarrow>
                 r = Inr ()
                 \<and> executed (new_events w w')
                     = [''git clone '' @ repo_url @ '' '' @ clone_dir,
                        ''git clone '' @ repo_url @ '' '' @ clone_dir])
            \<and> (fst (run_command_body E (''git clone '' @ repo_url @ '' '' @ clone_dir) None w)
                  \<noteq> Inr ()
                \<and> fst (run_command_body E (''git clone '' @ repo_url @ '' '' @ clone_dir) None
                         (time_sleep 5000
                            (snd (run_command_body E
                                    (''git clone '' @ repo_url @ '' '' @ clone_dir) None w))))
                  \<noteq> Inr () \<longrightarrow>
                 executed (new_events w w')
                   = [''git clone '' @ repo_url @ '' '' @ clone_dir,
                      ''git clone '' @ repo_url @ '' '' @ clone_dir,
                      ''git clone '' @ repo_url @ '' '' @ clone_dir]))"
proof (cases "Path_exists E (fs w) (Path clone_dir)")
  case (Inl e)
  with assms show ?thesis by (simp add: clone_repo_def)
next
  case (Inr found)
  show ?thesis
  proof (cases found)
    case True
    with Inr assms show ?thesis
      by (auto simp: clone_repo_def log_defs new_events_def)
  next
    case False
    with Inr assms
    have rc: "run_command E (''git clone '' @ repo_url @ '' '' @ clone_dir) None w = (r, w')"
      by (simp add: clone_repo_def)
    from run_command_reads [OF rc]
    have 1: "called (new_events w w') = []" "file_ops (new_events w w') = []"
      by simp_all
    from run_command_count [OF rc] 1 rc Inr False show ?thesis
      by simp
  qed
qed

theorem C5_clone_repo_witness:
  "(\<exists>r w'. clone_repo E_fail ''u'' ''tpl'' w_ready = (r, w')
       \<and> Path_exists E_fail (fs w_ready) (Path ''tpl'') = Inr True
       \<and> r = Inr () \<and> fs w' = fs w_ready
       \<and> new_events w_ready w' = [Log INFO ''Repository tpl already exists.''])
   \<and> (\<exists>r w'. clone_repo E_ok ''u'' ''tpl'' w_empty = (r, w')
       \<and> Path_exists E_ok (fs w_empty) (Path ''tpl'') = Inr False
       \<and> r = Inr ()
       \<and> executed (new_events w_empty w') = [''git clone u tpl'']
       \<and> file_ops (new_events w_empty w') = [])
   \<and> (\<exists>r w'. clone_repo E_fail ''u'' ''tpl'' w_empty = (r, w')
       \<and> Path_exists E_fail (fs w_empty) (Path ''tpl'') = Inr False
       \<and> called (new_events w_empty w') = []
       \<and> executed (new_events w_empty w')
           = [''git clone u tpl'', ''git clone u tpl'', ''git clone u tpl''])
   \<and> (\<exists>r w'. clone_repo E_name_max ''u'' long_name w_empty = (r, w')
       \<and> Path_exists E_name_max (fs w_empty) (Path long_name) = Inl (OSError 36)
       \<and> r = Inl (OSError 36) \<and> w' = w_empty)"
proof -
  obtain r w' where h: "clone_repo E_fail ''u'' ''tpl'' w_ready = (r, w')" by force
  have e: "Path_exists E_fail (fs w_ready) (Path ''tpl'') = Inr True"
    by (simp add: w_ready_exists)
  from C5_clone_repo [OF h] e
  have "r = Inr ()" and "fs w' = fs w_ready"
    and "new_events w_ready w' = [Log INFO ''Repository tpl already exists.'']"
    by simp_all
  with h e have 1:
    "\<exists>r w'. clone_repo E_fail ''u'' ''tpl'' w_ready = (r, w')
       \<and> Path_exists E_fail (fs w_ready) (Path ''tpl'') = Inr True
       \<and> r = Inr () \<and> fs w' = fs w_ready
       \<and> new_events w_ready w' = [Log INFO ''Repository tpl already exists.'']"
    by blast
  obtain r2 w2 where k: "clone_repo E_ok ''u'' ''tpl'' w_empty = (r2, w2)" by force
  have n: "Path_exists E_ok (fs w_empty) (Path ''tpl'') = Inr False"
    by (simp add: w_empty_exists)
  from C5_clone_repo [OF k] n E_ok_body
  have "r2 = Inr ()" and "executed (new_events w_empty w2) = [''git clone u tpl'']"
    and "file_ops (new_events w_empty w2) = []"
    by simp_all
  with k n have 2:
    "\<exists>r w'. clone_repo E_ok ''u'' ''tpl'' w_empty = (r, w')
       \<and> Path_exists E_ok (fs w_empty) (Path ''tpl'') = Inr False
       \<and> r = Inr ()
       \<and> executed (new_events w_empty w') = [''git clone u tpl'']
       \<and> file_ops (new_events w_empty w') = []"
    by blast
  obtain r3 w3 where l: "clone_repo E_name_max ''u'' long_name w_empty = (r3, w3)" by force
  note s = stat_long_name(1) [of "fs w_empty"]
  from C5_clone_repo [OF l] s have "r3 = Inl (OSError 36)" and "w3 = w_empty"
    by simp_all
  with l s have 3:
    "\<exists>r w'. clone_repo E_name_max ''u'' long_name w_empty = (r, w')
       \<and> Path_exists E_name_max (fs w_empty) (Path long_name) = Inl (OSError 36)
       \<and> r = Inl (OSError 36) \<and> w' = w_empty"
    by blast
  obtain r4 w4 where j: "clone_repo E_fail ''u'' ''tpl'' w_empty = (r4, w4)" by force
  have n': "Path_exists E_fail (fs w_empty) (Path ''tpl'') = Inr False"
    by (simp add: w_empty_exists)
  from C5_clone_repo [OF j] n'
  have "called (new_events w_empty w4) = []"
    and "executed (new_events w_empty w4)
           = [''git clone u tpl'', ''git clone u tpl'', ''git clone u tpl'']"
    by (simp_all add: E_fail_body_value)
  with j n' have 4:
    "\<exists>r w'. clone_repo E_fail ''u'' ''tpl'' w_empty = (r, w')
       \<and> Path_exists E_fail (fs w_empty) (Path ''tpl'') = Inr False
       \<and> called (new_events w_empty w') = []
       \<and> executed (new_events w_empty w')
           = [''git clone u tpl'', ''git clone u tpl'', ''git clone u tpl'']"
    by blast
  from 1 2 4 3 show ?thesis by blast
qed

text \<open>
  The claim as stated (exactly one \<open>git clone\<close> command is run when the directory is
  missing) fails when the clone exits with a non-zero status: the command is executed
  three times.
\<close>

theorem C5_clone_executed_three_times_counterexample:
  "\<not> exists_path (fs w_empty) (Path ''tpl'')
   \<and> Path_exists E_fail (fs w_empty) (Path ''tpl'') = Inr False
   \<and> executed (new_events w_empty (snd (clone_repo E_fail ''u'' ''tpl'' w_empty)))
       = [''git clone u tpl'', ''git clone u tpl'', ''git clone u tpl'']"
proof -
  from run_command_all_fail [of E_fail "''git clone u tpl''" None w_empty, OF E_fail_always]
  obtain e w' a1 a2 a3 where rc: "run_command E_fail ''git clone u tpl'' None w_empty = (Inl e, w')"
    and ne: "new_events w_empty w' = a1 @ Sleep 5000 # a2 @ Sleep 5000 # a3"
    and a: "attempt_trace ''git clone u tpl'' None a1" "attempt_trace ''git clone u tpl'' None a2"
           "attempt_trace ''git clone u tpl'' None a3"
    by blast
  have "clone_repo E_fail ''u'' ''tpl'' w_empty = (Inl e, w')"
    using rc w_empty_exists by (simp add: clone_repo_def)
  moreover from ne a have "executed (new_events w_empty w')
       = [''git clone u tpl'', ''git clone u tpl'', ''git clone u tpl'']"
    by (simp add: attempt_trace_reads)
  ultimately show ?thesis using w_empty_exists by simp
qed

subsection \<open>Scan Runner\<close>

text \<open>
  Claim C3, amended. When the URL file does not exist, \<open>run_nuclei\<close> raises, leaves the
  file system as it is and executes no command. When the existence test answers that
  the file is missing, the error is \<open>FileNotFoundError\<close> and it is logged; when the test
  itself raises (a name that is too long, a directory that may not be searched), that
  error is raised and no error record is written.
\<close>

theorem C3_run_nuclei_missing_url_file:
  assumes "\<not> exists_path (fs w) (to_Path url_file)"
    and "run_nuclei E url_file template_dir w = (r, w')"
  shows "(\<exists>e. r = Inl e) \<and> fs w' = fs w
       \<and> executed (new_events w w') = [] \<and> called (new_events w w') = []
       \<and> (stat_error E (fs w) (to_Path url_file) = None \<longrightarrow>
            r = Inl (FileNotFoundError (''URL file not found: '' @ format_pathlike url_file))
            \<and> new_events w w' =
                 [Log INFO (''Running Nuclei with templates from: '' @ template_dir),
                  Log ERROR (''URL file not found: '' @ format_pathlike url_file)])
       \<and> (\<forall>e. stat_error E (fs w) (to_Path url_file) = Some e \<longrightarrow>
            r = Inl e
            \<and> new_events w w' =
                 [Log INFO (''Running Nuclei with templates from: '' @ template_dir)])"
proof (cases "stat_error E (fs w) (to_Path url_file)")
  case None
  with assms show ?thesis
    by (auto simp: run_nuclei_def Path_exists_def Let_def log_defs new_events_def)
next
  case (Some e)
  with assms show ?thesis
    by (auto simp: run_nuclei_def Path_exists_def Let_def log_defs new_events_def)
qed

theorem C3_run_nuclei_missing_url_file_witness:
  "\<exists>r w'. run_nuclei E_ok (Str ''out/urls.txt'') ''tpl'' w_empty = (r, w')
     \<and> \<not> exists_path (fs w_empty) (to_Path (Str ''out/urls.txt''))
     \<and> stat_error E_ok (fs w_empty) (to_Path (Str ''out/urls.txt'')) = None
     \<and> r = Inl (FileNotFoundError ''URL file not found: out/urls.txt'')
     \<and> new_events w_empty w' = [Log INFO ''Running Nuclei with templates from: tpl'',
                                Log ERROR ''URL file not found: out/urls.txt'']
     \<and> executed (new_events w_empty w') = []"
proof -
  obtain r w' where h: "run_nuclei E_ok (Str ''out/urls.txt'') ''tpl'' w_empty = (r, w')"
    by force
  have a: "\<not> exists_path (fs w_empty) (to_Path (Str ''out/urls.txt''))"
    by (simp add: w_empty_exists)
  have s: "stat_error E_ok (fs w_empty) (to_Path (Str ''out/urls.txt'')) = None"
    by (simp add: E_ok_def E_out_def)
  from C3_run_nuclei_missing_url_file [OF a h] s
  have "r = Inl (FileNotFoundError ''URL file not found: out/urls.txt'')"
    and "new_events w_empty w' = [Log INFO ''Running Nuclei with templates from: tpl'',
                                  Log ERROR ''URL file not found: out/urls.txt'']"
    and "executed (new_events w_empty w') = []"
    by simp_all
  with h a s show ?thesis by blast
qed

text \<open>
  The claim as stated (an error with a logged error message for every absent URL file)
  fails for an absent file whose name the operating system refuses: \<open>run_nuclei\<close> raises
  the \<open>OSError\<close> of the existence test and the log holds the opening record only.
\<close>

theorem C3_unlogged_oserror_counterexample:
  "\<not> exists_path (fs w_empty) (to_Path (Str long_name))
   \<and> run_nuclei E_name_max (Str long_name) ''tpl'' w_empty
       = (Inl (OSError 36),
          w_empty\<lparr>trace := [Log INFO ''Running Nuclei with templates from: tpl'']\<rparr>)"
  using w_empty_exists stat_long_name(1)
  by (simp add: run_nuclei_def Let_def log_defs emit_def w_empty_def)

text \<open>
  Claim C7, amended. With the URL file present: when the existence test on the template
  directory answers that it is missing, \<open>run_nuclei\<close> logs the error and raises
  \<open>FileNotFoundError\<close> without executing anything; when that test itself raises, its
  error is raised, nothing is executed and no error record is written; when the
  directory exists, \<open>run_nuclei\<close> is one call of the Command Runner with the scanner
  command, and the scanner is executed once when the first attempt returns, twice when
  the first raises and the second returns, and three times otherwise.
\<close>

theorem C7_run_nuclei_template_check_then_runner:
  assumes "Path_exists E (fs w) (to_Path url_file) = Inr True"
    and "run_nuclei E url_file template_dir w = (r, w')"
  shows "(Path_exists E (fs w) (Path template_dir) = Inr False \<longrightarrow>
            r = Inl (FileNotFoundError (''Template directory not found: '' @ template_dir))
            \<and> fs w' = fs w
            \<and> new_events w w' =
                 [Log INFO (''Running Nuclei with templates from: '' @ template_dir),
                  Log ERROR (''Template directory not found: '' @ template_dir)])
       \<and> (\<forall>e. Path_exists E (fs w) (Path template_dir) = Inl e \<longrightarrow>
            r = Inl e \<and> fs w' = fs w
            \<and> new_events w w' =
                 [Log INFO (''Running Nuclei with templates from: '' @ template_dir)])
       \<and> (Path_exists E (fs w) (Path template_dir) = Inr True \<longrightarrow>
            (r, w') = run_command E
                        (''nuclei -l '' @ format_pathlike url_file @ '' -t '' @ template_dir) None
                        (logging_info (''Running Nuclei with templates from: '' @ template_dir) w)
            \<and> called (new_events w w') = [] \<and> file_ops (new_events w w') = []
            \<and> (fst (run_command_body E
                       (''nuclei -l '' @ format_pathlike url_file @ '' -t '' @ template_dir) None
                       (logging_info (''Running Nuclei with templates from: '' @ template_dir) w))
                  = Inr () \<longrightarrow>
                 r = Inr ()
                 \<and> executed (new_events w w')
                     = [''nuclei -l '' @ format_pathlike url_file @ '' -t '' @ template_dir])
            \<and> (fst (run_command_body E
                       (''nuclei -l '' @ format_pathlike url_file @ '' -t '' @ template_dir) None
                       (logging_info (''Running Nuclei with templates from: '' @ template_dir) w))
                  \<noteq> Inr ()
                \<and> fst (run_command_body E
                         (''nuclei -l '' @ format_pathlike url_file @ '' -t '' @ template_dir) None
                         (time_sleep 5000
                            (snd (run_command_body E
                                    (''nuclei -l '' @ format_pathlike url_file @ '' -t ''
                                       @ template_dir) None
                                    (logging_info
                                       (''Running Nuclei with templates from: '' @ template_dir)
                                       w)))))
                  = Inr () \<longrightarrow>
                 r = Inr ()
                 \<and> executed (new_events w w')
                     = [''nuclei -l '' @ format_pathlike url_file @ '' -t '' @ template_dir,
                        ''nuclei -l '' @ format_pathlike url_file @ '' -t '' @ template_dir])
            \<and> (fst (run_command_body E
                       (''nuclei -l '' @ format_pathlike url_file @ '' -t '' @ template_dir) None
                       (logging_info (''Running Nuclei with templates from: '' @ template_dir) w))
                  \<noteq> Inr ()
                \<and> fst (run_command_body E
                         (''nuclei -l '' @ format_pathlike url_file @ '' -t '' @ template_dir) None
                         (time_sleep 5000
                            (snd (run_command_body E
                                    (''nuclei -l '' @ format_pathlike url_file @ '' -t ''
                                       @ template_dir) None
                                    (logging_info
                                       (''Running Nuclei with templates from: '' @ template_dir)
                                       w)))))
                  \<noteq> Inr () \<longrightarrow>
                 executed (new_events w w')
                   = [''nuclei -l '' @ format_pathlike url_file @ '' -t '' @ template_dir,
                      ''nuclei -l '' @ format_pathlike url_file @ '' -t '' @ template_dir,
                      ''nuclei -l '' @ format_pathlike url_file @ '' -t '' @ template_dir]))"
proof (cases "Path_exists E (fs w) (Path template_dir)")
  case (Inl e)
  with assms show ?thesis
    by (auto simp: run_nuclei_def Let_def log_defs new_events_def)
next
  case (Inr found)
  show ?thesis
  proof (cases found)
    case False
    with Inr assms show ?thesis
      by (auto simp: run_nuclei_def Let_def log_defs new_events_def)
  next
    case True
    let ?c = "''nuclei -l '' @ format_pathlike url_file @ '' -t '' @ template_dir"
    let ?w1 = "logging_info (''Running Nuclei with templates from: '' @ template_dir) w"
    from True Inr assms have rc: "run_command E ?c None ?w1 = (r, w')"
      by (simp add: run_nuclei_def Let_def log_defs)
    have ne: "new_events w w'
        = Log INFO (''Running Nuclei with templates from: '' @ template_dir) # new_events ?w1 w'"
      using new_events_trans [OF _ run_command_extends [OF rc], of w
              "[Log INFO (''Running Nuclei with templates from: '' @ template_dir)]"]
      by (simp add: log_defs)
    from run_command_reads [OF rc]
    have 1: "called (new_events ?w1 w') = []" "file_ops (new_events ?w1 w') = []"
      by simp_all
    from run_command_count [OF rc] 1 rc Inr True show ?thesis
      unfolding ne by simp
  qed
qed


lemma E_undecodable_body:
  "fst (run_command_body E_undecodable c None v) = Inl UnicodeDecodeError"
  by (simp add: run_command_body_def subprocess_run_def wait_for_def E_undecodable_def
      E_out_def Let_def)

lemma stat_undecodable [simp]:
  "Path_exists E_undecodable f p = Inr (exists_path f p)"
  by (simp add: Path_exists_def E_undecodable_def E_out_def)

theorem C7_run_nuclei_witness:
  "(\<exists>r w'. run_nuclei E_ok (Str ''out/urls.txt'') ''tpl'' w_ready = (r, w')
       \<and> Path_exists E_ok (fs w_ready) (to_Path (Str ''out/urls.txt'')) = Inr True
       \<and> Path_exists E_ok (fs w_ready) (Path ''tpl'') = Inr True
       \<and> r = Inr ()
       \<and> executed (new_events w_ready w') = [''nuclei -l out/urls.txt -t tpl''])
   \<and> (\<exists>r w'. run_nuclei E_undecodable (Str ''out/urls.txt'') ''tpl'' w_ready = (r, w')
       \<and> Path_exists E_undecodable (fs w_ready) (to_Path (Str ''out/urls.txt'')) = Inr True
       \<and> Path_exists E_undecodable (fs w_ready) (Path ''tpl'') = Inr True
       \<and> executed (new_events w_ready w')
           = [''nuclei -l out/urls.txt -t tpl'', ''nuclei -l out/urls.txt -t tpl'',
              ''nuclei -l out/urls.txt -t tpl''])
   \<and> (\<exists>r w'. run_nuclei E_ok (Str ''out/urls.txt'') ''missing'' w_ready = (r, w')
       \<and> Path_exists E_ok (fs w_ready) (to_Path (Str ''out/urls.txt'')) = Inr True
       \<and> Path_exists E_ok (fs w_ready) (Path ''missing'') = Inr False
       \<and> r = Inl (FileNotFoundError ''Template directory not found: missing'')
       \<and> executed (new_events w_ready w') = [])
   \<and> (\<exists>r w'. run_nuclei E_name_max (Str ''out/urls.txt'') long_name w_ready = (r, w')
       \<and> Path_exists E_name_max (fs w_ready) (to_Path (Str ''out/urls.txt'')) = Inr True
       \<and> Path_exists E_name_max (fs w_ready) (Path long_name) = Inl (OSError 36)
       \<and> r = Inl (OSError 36)
       \<and> new_events w_ready w' = [Log INFO (''Running Nuclei with templates from: '' @ long_name)])"
proof -
  have u: "Path_exists E_ok (fs w_ready) (to_Path (Str ''out/urls.txt'')) = Inr True"
    and t: "Path_exists E_ok (fs w_ready) (Path ''tpl'') = Inr True"
    and m: "Path_exists E_ok (fs w_ready) (Path ''missing'') = Inr False"
    using w_ready_exists by simp_all
  have u': "Path_exists E_undecodable (fs w_ready) (to_Path (Str ''out/urls.txt'')) = Inr True"
    and t': "Path_exists E_undecodable (fs w_ready) (Path ''tpl'') = Inr True"
    using w_ready_exists by simp_all
  have u'': "Path_exists E_name_max (fs w_ready) (to_Path (Str ''out/urls.txt'')) = Inr True"
    and l: "Path_exists E_name_max (fs w_ready) (Path long_name) = Inl (OSError 36)"
    using w_ready_exists stat_long_name by simp_all
  obtain r1 w1 where h1: "run_nuclei E_ok (Str ''out/urls.txt'') ''tpl'' w_ready = (r1, w1)"
    by force
  from C7_run_nuclei_template_check_then_runner [OF u h1] t E_ok_body
  have "r1 = Inr ()" and "executed (new_events w_ready w1) = [''nuclei -l out/urls.txt -t tpl'']"
    by simp_all
  with h1 u t have 1:
    "\<exists>r w'. run_nuclei E_ok (Str ''out/urls.txt'') ''tpl'' w_ready = (r, w')
       \<and> Path_exists E_ok (fs w_ready) (to_Path (Str ''out/urls.txt'')) = Inr True
       \<and> Path_exists E_ok (fs w_ready) (Path ''tpl'') = Inr True
       \<and> r = Inr ()
       \<and> executed (new_events w_ready w') = [''nuclei -l out/urls.txt -t tpl'']"
    by blast
  obtain r2 w2 where h2: "run_nuclei E_undecodable (Str ''out/urls.txt'') ''tpl'' w_ready = (r2, w2)"
    by force
  from C7_run_nuclei_template_check_then_runner [OF u' h2] t' E_undecodable_body
  have "executed (new_events w_ready w2)
           = [''nuclei -l out/urls.txt -t tpl'', ''nuclei -l out/urls.txt -t tpl'',
              ''nuclei -l out/urls.txt -t tpl'']"
    by simp
  with h2 u' t' have 2:
    "\<exists>r w'. run_nuclei E_undecodable (Str ''out/urls.txt'') ''tpl'' w_ready = (r, w')
       \<and> Path_exists E_undecodable (fs w_ready) (to_Path (Str ''out/urls.txt'')) = Inr True
       \<and> Path_exists E_undecodable (fs w_ready) (Path ''tpl'') = Inr True
       \<and> executed (new_events w_ready w')
           = [''nuclei -l out/urls.txt -t tpl'', ''nuclei -l out/urls.txt -t tpl'',
              ''nuclei -l out/urls.txt -t tpl'']"
    by blast
  obtain r3 w3 where h3: "run_nuclei E_ok (Str ''out/urls.txt'') ''missing'' w_ready = (r3, w3)"
    by force
  from C7_run_nuclei_template_check_then_runner [OF u h3] m
  have "r3 = Inl (FileNotFoundError ''Template directory not found: missing'')"
    and "executed (new_events w_ready w3) = []"
    by simp_all
  with h3 u m have 3:
    "\<exists>r w'. run_nuclei E_ok (Str ''out/urls.txt'') ''missing'' w_ready = (r, w')
       \<and> Path_exists E_ok (fs w_ready) (to_Path (Str ''out/urls.txt'')) = Inr True
       \<and> Path_exists E_ok (fs w_ready) (Path ''missing'') = Inr False
       \<and> r = Inl (FileNotFoundError ''Template directory not found: missing'')
       \<and> executed (new_events w_ready w') = []"
    by blast
  obtain r4 w4 where h4: "run_nuclei E_name_max (Str ''out/urls.txt'') long_name w_ready = (r4, w4)"
    by force
  from C7_run_nuclei_template_check_then_runner [OF u'' h4] l
  have "r4 = Inl (OSError 36)"
    and "new_events w_ready w4 = [Log INFO (''Running Nuclei with templates from: '' @ long_name)]"
    by simp_all
  with h4 u'' l have 4:
    "\<exists>r w'. run_nuclei E_name_max (Str ''out/urls.txt'') long_name w_ready = (r, w')
       \<and> Path_exists E_name_max (fs w_ready) (to_Path (Str ''out/urls.txt'')) = Inr True
       \<and> Path_exists E_name_max (fs w_ready) (Path long_name) = Inl (OSError 36)
       \<and> r = Inl (OSError 36)
       \<and> new_events w_ready w' = [Log INFO (''Running Nuclei with templates from: '' @ long_name)]"
    by blast
  from 1 2 3 4 show ?thesis by blast
qed

text \<open>
  The claim as stated (the scanner is invoked exactly once when both paths exist) fails
  when the scanner exits with a non-zero status: it is executed three times.
\<close>

theorem C7_scanner_executed_three_times_counterexample:
  "exists_path (fs w_ready) (to_Path (Str ''out/urls.txt''))
   \<and> exists_path (fs w_ready) (Path ''tpl'')
   \<and> executed (new_events w_ready (snd (run_nuclei E_fail (Str ''out/urls.txt'') ''tpl'' w_ready)))
       = [''nuclei -l out/urls.txt -t tpl'', ''nuclei -l out/urls.txt -t tpl'',
          ''nuclei -l out/urls.txt -t tpl'']"
proof -
  let ?w1 = "logging_info (''Running Nuclei with templates from: tpl'') w_ready"
  from run_command_all_fail [of E_fail "''nuclei -l out/urls.txt -t tpl''" None ?w1,
      OF E_fail_always]
  obtain e w' a1 a2 a3 where rc: "run_command E_fail ''nuclei -l out/urls.txt -t tpl'' None ?w1 = (Inl e, w')"
    and ne: "new_events ?w1 w' = a1 @ Sleep 5000 # a2 @ Sleep 5000 # a3"
    and a: "attempt_trace ''nuclei -l out/urls.txt -t tpl'' None a1"
           "attempt_trace ''nuclei -l out/urls.txt -t tpl'' None a2"
           "attempt_trace ''nuclei -l out/urls.txt -t tpl'' None a3"
    by blast
  have rn: "run_nuclei E_fail (Str ''out/urls.txt'') ''tpl'' w_ready = (Inl e, w')"
    using rc w_ready_exists by (simp add: run_nuclei_def Let_def log_defs)
  have "new_events w_ready w' = Log INFO (''Running Nuclei with templates from: tpl'') # new_events ?w1 w'"
    using new_events_trans [OF _ run_command_extends [OF rc], of w_ready "[Log INFO (''Running Nuclei with templates from: tpl'')]"]
    by (simp add: log_defs)
  with ne a have "executed (new_events w_ready w')
       = [''nuclei -l out/urls.txt -t tpl'', ''nuclei -l out/urls.txt -t tpl'',
          ''nuclei -l out/urls.txt -t tpl'']"
    by (simp add: attempt_trace_reads)
  with rn w_ready_exists show ?thesis by simp
qed

subsection \<open>URL Collector\<close>

lemma subprocess_run_frame:
  assumes "subprocess_run E c cwd w = (r, w')" and "\<And>v. fs_after (shell E c cwd v) p = fs v p"
  shows "fs w' p = fs w p"
  using assms by (cases cwd) (auto simp: subprocess_run_def wait_for_def Let_def split: if_splits)

lemma body_frame:
  assumes "run_command_body E c cwd w = (r, w')" and "\<And>v. fs_after (shell E c cwd v) p = fs v p"
  shows "fs w' p = fs w p"
proof -
  obtain r1 w1 where s: "subprocess_run E c cwd (logging_info (''Running command: '' @ c) w) = (r1, w1)"
    by force
  from subprocess_run_frame [OF s assms(2)] have "fs w1 p = fs w p"
    by (simp add: log_defs)
  with assms(1) s show ?thesis
    by (auto simp: run_command_body_def Let_def log_defs
        split: sum.splits pyerror.splits option.splits)
qed

lemma run_command_frame:
  assumes "run_command E c cwd w = (r, w')" and "\<And>v. fs_after (shell E c cwd v) p = fs v p"
  shows "fs w' p = fs w p"
proof -
  obtain r1 w1 where b1: "run_command_body E c cwd w = (r1, w1)" by force
  obtain r2 w2 where b2: "run_command_body E c cwd (time_sleep 5000 w1) = (r2, w2)" by force
  obtain r3 w3 where b3: "run_command_body E c cwd (time_sleep 5000 w2) = (r3, w3)" by force
  note f1 = body_frame [OF b1 assms(2)]
  note f2 = body_frame [OF b2 assms(2)]
  note f3 = body_frame [OF b3 assms(2)]
  from assms(1) b1 b2 b3 f1 f2 f3 show ?thesis
    unfolding run_command_unfold
    by (auto simp: log_defs split: sum.splits)
qed

text \<open>
  Claim C10. When the discovery command fails after all retries, \<open>collect_urls\<close> raises
  the runner's exception in the world the runner left: it opens, writes and removes no
  file, and \<open>urls.txt\<close> in the output directory is as before whenever the discovery
  command itself leaves that path alone.
\<close>

theorem C10_collect_urls_discovery_failure:
  assumes "run_command E (''python ParamSpider/paramspider.py -d '' @ domain @ '' -o '' @ temp_file)
             None (logging_info (''Collecting URLs for domain: '' @ domain) w) = (Inl e, w')"
  shows "collect_urls E domain output_dir w = (Inl e, w')
       \<and> file_ops (new_events w w') = []
       \<and> ((\<forall>v. fs_after (shell E (''python ParamSpider/paramspider.py -d '' @ domain
                                     @ '' -o '' @ temp_file) None v)
                   (joinpath (Path output_dir) ''urls.txt'')
                 = fs v (joinpath (Path output_dir) ''urls.txt''))
            \<longrightarrow> fs w' (joinpath (Path output_dir) ''urls.txt'')
                 = fs w (joinpath (Path output_dir) ''urls.txt''))"
proof -
  let ?c = "''python ParamSpider/paramspider.py -d '' @ domain @ '' -o '' @ temp_file"
  let ?w1 = "logging_info (''Collecting URLs for domain: '' @ domain) w"
  have 1: "collect_urls E domain output_dir w = (Inl e, w')"
    using assms by (simp add: collect_urls_def Let_def)
  have "new_events w w' = Log INFO (''Collecting URLs for domain: '' @ domain) # new_events ?w1 w'"
    using new_events_trans [OF _ run_command_extends [OF assms], of w "[Log INFO (''Collecting URLs for domain: '' @ domain)]"]
    by (simp add: log_defs)
  with run_command_reads [OF assms] have 2: "file_ops (new_events w w') = []"
    by simp
  have 3: "fs w' p = fs w p" if "\<And>v. fs_after (shell E ?c None v) p = fs v p" for p
    using run_command_frame [OF assms that] by (simp add: log_defs)
  from 1 2 3 show ?thesis by blast
qed

theorem C10_collect_urls_discovery_failure_witness:
  "\<exists>e w'. run_command E_fail (''python ParamSpider/paramspider.py -d '' @ ''example.com''
                               @ '' -o '' @ temp_file)
             None (logging_info (''Collecting URLs for domain: '' @ ''example.com'') w_ready) = (Inl e, w')
     \<and> collect_urls E_fail ''example.com'' ''out'' w_ready = (Inl e, w')
     \<and> file_ops (new_events w_ready w') = []
     \<and> fs w' (joinpath (Path ''out'') ''urls.txt'') = fs w_ready (joinpath (Path ''out'') ''urls.txt'')"
proof -
  let ?c = "''python ParamSpider/paramspider.py -d '' @ ''example.com'' @ '' -o '' @ temp_file"
  have f: "\<And>v. returncode (shell E_fail ?c None v) \<noteq> 0"
    by (simp add: E_fail_def)
  from run_command_all_fail [OF f]
  obtain e w' where rc: "run_command E_fail ?c None
       (logging_info (''Collecting URLs for domain: '' @ ''example.com'') w_ready) = (Inl e, w')"
    by blast
  have fr: "\<forall>v. fs_after (shell E_fail ?c None v) (joinpath (Path ''out'') ''urls.txt'')
                 = fs v (joinpath (Path ''out'') ''urls.txt'')"
    by (simp add: E_fail_def)
  from C10_collect_urls_discovery_failure [OF rc, of "''out''"] fr rc show ?thesis
    by blast
qed



subsection \<open>Text files and the URL Collector on success\<close>

lemma concat_lines_of: "concat (lines_of s) = s"
  by (induction s) (auto split: list.splits)

lemma LF_neq_CR [simp]: "LF \<noteq> CR" "CR \<noteq> LF"
  by (simp_all add: LF_def CR_def)

lemma universal_newlines_no_CR: "CR \<notin> set (universal_newlines s)"
  by (induction s rule: universal_newlines.induct) auto

lemma universal_newlines_id: "CR \<notin> set s \<Longrightarrow> universal_newlines s = s"
  by (induction s rule: universal_newlines.induct) auto

lemma concat_readlines: "concat (readlines s) = universal_newlines s"
  by (simp add: readlines_def concat_lines_of)

lemma readlines_concat_readlines: "readlines (concat (readlines s)) = readlines s"
  by (simp add: readlines_def concat_lines_of universal_newlines_id universal_newlines_no_CR)

lemma joinpath_urls: "joinpath p ''urls.txt'' = PosixPath (root p) (parts p @ [''urls.txt''])"
  by (simp add: joinpath_def Path_urls Let_def)

lemma parent_urls: "parent (joinpath p ''urls.txt'') = p"
  by (simp add: joinpath_urls parent_def)

lemma urls_neq_temp: "joinpath p ''urls.txt'' \<noteq> Path temp_file"
  by (cases "parts p") (simp_all add: joinpath_urls Path_temp)

lemma collect_urls_success:
  assumes run: "run_command E (''python ParamSpider/paramspider.py -d '' @ domain @ '' -o '' @ temp_file)
                  None (logging_info (''Collecting URLs for domain: '' @ domain) w) = (Inr (), w2)"
    and out: "fs w2 (Path temp_file) = Some (File content)"
    and dec: "decodable E content"
    and dir: "is_dir (fs w2) (Path output_dir)"
    and nodir: "fs w2 (joinpath (Path output_dir) ''urls.txt'') \<noteq> Some Dir"
  shows "collect_urls E domain output_dir w =
           (Inr (), \<lparr>fs = (fs w2)(joinpath (Path output_dir) ''urls.txt'' \<mapsto> File (concat (readlines content)),
                               Path temp_file := None),
                     trace = trace w2 @ [Open (Path temp_file) ''r'',
                                         Open (joinpath (Path output_dir) ''urls.txt'') ''w'',
                                         Remove (Path temp_file),
                                         Log INFO (''URLs saved to '' @ path_str (joinpath (Path output_dir) ''urls.txt''))]\<rparr>)"
proof -
  have ex: "exists_path (fs w2) (Path output_dir)"
    using dir by (auto simp: is_dir_def exists_path_def)
  have r: "open_read E (Path temp_file) w2 = (Inr content, emit (Open (Path temp_file) ''r'') w2)"
    using out dec by (simp add: open_read_def Let_def Path_temp)
  let ?w3 = "emit (Open (Path temp_file) ''r'') w2"
  let ?u = "joinpath (Path output_dir) ''urls.txt''"
  let ?w4 = "(emit (Open ?u ''w'') ?w3)\<lparr>fs := (fs w2)(?u \<mapsto> File (concat (readlines content)))\<rparr>"
  have wr: "open_writelines ?u (readlines content) ?w3 = (Inr (), ?w4)"
    using ex dir nodir
    by (simp add: open_writelines_def Let_def parent_urls) (simp add: joinpath_urls)
  have t: "fs ?w4 (Path temp_file) = Some (File content)"
    using out urls_neq_temp [of "Path output_dir"] by (simp add: fun_upd_def)
  let ?w5 = "(emit (Remove (Path temp_file)) ?w4)\<lparr>fs := (fs ?w4)(Path temp_file := None)\<rparr>"
  have rm: "os_remove (Path temp_file) ?w4 = (Inr (), ?w5)"
    unfolding os_remove_def Let_def using out urls_neq_temp [of "Path output_dir"]
    by (simp add: Path_temp)
  have "collect_urls E domain output_dir w
          = (Inr (), logging_info (''URLs saved to '' @ path_str ?u) ?w5)"
    by (simp only: collect_urls_def Let_def run r wr rm prod.case sum.case)
  then show ?thesis
    by (simp add: log_defs emit_def)
qed


lemma open_read_Inr:
  "open_read E p v = (Inr content, v') \<Longrightarrow> fs v p = Some (File content) \<and> decodable E content"
  by (auto simp: open_read_def Let_def split: if_splits option.splits node.splits)

lemma open_read_fs: "open_read E p v = (r, v') \<Longrightarrow> fs v' = fs v"
  by (auto simp: open_read_def Let_def split: if_splits option.splits node.splits)

lemma open_writelines_Inr:
  "open_writelines p ls v = (Inr u, v') \<Longrightarrow> is_dir (fs v) (parent p) \<and> fs v p \<noteq> Some Dir"
  by (auto simp: open_writelines_def Let_def split: if_splits)

lemma collect_urls_success_conv:
  assumes "collect_urls E domain output_dir w = (Inr (), w')"
  shows "\<exists>w2 content.
           run_command E (''python ParamSpider/paramspider.py -d '' @ domain @ '' -o '' @ temp_file)
             None (logging_info (''Collecting URLs for domain: '' @ domain) w) = (Inr (), w2)
         \<and> fs w2 (Path temp_file) = Some (File content)
         \<and> decodable E content
         \<and> is_dir (fs w2) (Path output_dir)
         \<and> fs w2 (joinpath (Path output_dir) ''urls.txt'') \<noteq> Some Dir"
proof -
  let ?c = "''python ParamSpider/paramspider.py -d '' @ domain @ '' -o '' @ temp_file"
  let ?w1 = "logging_info (''Collecting URLs for domain: '' @ domain) w"
  let ?u = "joinpath (Path output_dir) ''urls.txt''"
  obtain r2 w2 where run: "run_command E ?c None ?w1 = (r2, w2)" by force
  obtain r3 w3 where rd: "open_read E (Path temp_file) w2 = (r3, w3)" by force
  from assms run have r2: "r2 = Inr ()"
    by (cases r2) (simp_all add: collect_urls_def Let_def)
  from assms run r2 rd obtain content where r3: "r3 = Inr content"
    by (cases r3) (simp_all add: collect_urls_def Let_def)
  obtain r4 w4 where wr: "open_writelines ?u (readlines content) w3 = (r4, w4)" by force
  from assms run r2 rd r3 wr have r4: "r4 = Inr ()"
    by (cases r4) (simp_all add: collect_urls_def Let_def)
  from open_read_Inr rd r3
  have 1: "fs w2 (Path temp_file) = Some (File content)" "decodable E content" by blast+
  from wr r4 have "open_writelines ?u (readlines content) w3 = (Inr (), w4)" by simp
  from open_writelines_Inr [OF this] open_read_fs [OF rd]
  have 2: "is_dir (fs w2) (Path output_dir)" "fs w2 ?u \<noteq> Some Dir"
    by (simp_all add: parent_urls)
  from run r2 1 2 show ?thesis by blast
qed

text \<open>
  Claim C1, amended. When the discovery command has succeeded and left an output file
  that decodes in the codec of the locale, and the output directory is a directory in
  which \<open>urls.txt\<close> can be written, \<open>collect_urls\<close> returns normally and \<open>urls.txt\<close> holds
  the output with every \<open>\r\n\<close> and every other \<open>\r\<close> replaced by \<open>\n\<close>; read back, it
  gives the lines that were read from the output, in the same order. An output without
  carriage return is copied unchanged.
\<close>

theorem C1_collect_urls_copies_lines:
  assumes "run_command E (''python ParamSpider/paramspider.py -d '' @ domain @ '' -o '' @ temp_file)
             None (logging_info (''Collecting URLs for domain: '' @ domain) w) = (Inr (), w2)"
    and "fs w2 (Path temp_file) = Some (File content)"
    and "decodable E content"
    and "is_dir (fs w2) (Path output_dir)"
    and "fs w2 (joinpath (Path output_dir) ''urls.txt'') \<noteq> Some Dir"
  shows "\<exists>w'. collect_urls E domain output_dir w = (Inr (), w')
         \<and> fs w' (joinpath (Path output_dir) ''urls.txt'')
             = Some (File (universal_newlines content))
         \<and> concat (readlines content) = universal_newlines content
         \<and> readlines (universal_newlines content) = readlines content
         \<and> (CR \<notin> set content \<longrightarrow>
               fs w' (joinpath (Path output_dir) ''urls.txt'') = Some (File content)
               \<and> readlines content = lines_of content)"
proof -
  let ?u = "joinpath (Path output_dir) ''urls.txt''"
  let ?w' = "\<lparr>fs = (fs w2)(?u \<mapsto> File (concat (readlines content)), Path temp_file := None),
             trace = trace w2 @ [Open (Path temp_file) ''r'', Open ?u ''w'', Remove (Path temp_file),
                                 Log INFO (''URLs saved to '' @ path_str ?u)]\<rparr>"
  have 1: "collect_urls E domain output_dir w = (Inr (), ?w')"
    by (rule collect_urls_success [OF assms])
  have 2: "fs ?w' ?u = Some (File (universal_newlines content))"
    using urls_neq_temp [of "Path output_dir"] by (simp add: concat_readlines)
  have 3: "concat (readlines content) = universal_newlines content"
    by (rule concat_readlines)
  have 4: "readlines (universal_newlines content) = readlines content"
    using readlines_concat_readlines [of content] by (simp add: concat_readlines)
  have 5: "CR \<notin> set content \<longrightarrow> fs ?w' ?u = Some (File content) \<and> readlines content = lines_of content"
  proof
    assume "CR \<notin> set content"
    then have "universal_newlines content = content" by (rule universal_newlines_id)
    with 2 show "fs ?w' ?u = Some (File content) \<and> readlines content = lines_of content"
      by (simp only: readlines_def simp_thms)
  qed
  from 1 2 3 4 5 show ?thesis by blast
qed

text \<open>
  Claim C9. After a normal return of \<open>collect_urls\<close> the temporary file does not exist.
  The file system is the one the discovery command left, with \<open>urls.txt\<close> written and
  the temporary file removed, nothing else changed; the removal comes after the two
  opens that copy the lines.
\<close>

theorem C9_collect_urls_removes_temp_file:
  assumes "collect_urls E domain output_dir w = (Inr (), w')"
  shows "fs w' (Path temp_file) = None
       \<and> (\<exists>w2 content.
             run_command E (''python ParamSpider/paramspider.py -d '' @ domain @ '' -o '' @ temp_file)
               None (logging_info (''Collecting URLs for domain: '' @ domain) w) = (Inr (), w2)
           \<and> fs w2 (Path temp_file) = Some (File content)
           \<and> fs w' = (fs w2)(joinpath (Path output_dir) ''urls.txt''
                                  \<mapsto> File (concat (readlines content)),
                               Path temp_file := None)
           \<and> new_events w2 w' =
                [Open (Path temp_file) ''r'',
                 Open (joinpath (Path output_dir) ''urls.txt'') ''w'',
                 Remove (Path temp_file),
                 Log INFO (''URLs saved to '' @ path_str (joinpath (Path output_dir) ''urls.txt''))])"
proof -
  from collect_urls_success_conv [OF assms]
  obtain w2 content where h:
    "run_command E (''python ParamSpider/paramspider.py -d '' @ domain @ '' -o '' @ temp_file)
       None (logging_info (''Collecting URLs for domain: '' @ domain) w) = (Inr (), w2)"
    "fs w2 (Path temp_file) = Some (File content)"
    "decodable E content"
    "is_dir (fs w2) (Path output_dir)"
    "fs w2 (joinpath (Path output_dir) ''urls.txt'') \<noteq> Some Dir"
    by blast
  from collect_urls_success [OF h] assms
  have w': "w' = \<lparr>fs = (fs w2)(joinpath (Path output_dir) ''urls.txt'' \<mapsto> File (concat (readlines content)),
                               Path temp_file := None),
                 trace = trace w2 @ [Open (Path temp_file) ''r'',
                                     Open (joinpath (Path output_dir) ''urls.txt'') ''w'',
                                     Remove (Path temp_file),
                                     Log INFO (''URLs saved to '' @ path_str (joinpath (Path output_dir) ''urls.txt''))]\<rparr>"
    by simp
  have 1: "fs w' (Path temp_file) = None" by (simp add: w')
  have 2: "fs w' = (fs w2)(joinpath (Path output_dir) ''urls.txt'' \<mapsto> File (concat (readlines content)),
                               Path temp_file := None)"
    by (simp add: w')
  have 3: "new_events w2 w' = [Open (Path temp_file) ''r'',
                 Open (joinpath (Path output_dir) ''urls.txt'') ''w'',
                 Remove (Path temp_file),
                 Log INFO (''URLs saved to '' @ path_str (joinpath (Path output_dir) ''urls.txt''))]"
    by (simp add: w' new_events_def)
  from 1 2 3 h show ?thesis by blast
qed

lemma E_out_collect_pre:
  fixes content :: string
  defines "w2 \<equiv> snd (run_command (E_out content)
             (''python ParamSpider/paramspider.py -d '' @ ''example.com'' @ '' -o '' @ temp_file)
             None (logging_info (''Collecting URLs for domain: '' @ ''example.com'') w_ready))"
  shows "run_command (E_out content)
             (''python ParamSpider/paramspider.py -d '' @ ''example.com'' @ '' -o '' @ temp_file)
             None (logging_info (''Collecting URLs for domain: '' @ ''example.com'') w_ready) = (Inr (), w2)"
    and "fs w2 (Path temp_file) = Some (File content)"
    and "decodable (E_out content) content"
    and "is_dir (fs w2) (Path ''out'')"
    and "fs w2 (joinpath (Path ''out'') ''urls.txt'') \<noteq> Some Dir"
  unfolding w2_def
  by (simp_all add: E_out_run is_dir_def w_ready_def log_defs Path_temp_lit Path_out Path_tpl
      Path_out_urls joinpath_urls temp_file_def fs_out_def)
     (simp add: E_out_def)

lemmas E_ok_collect_pre = E_out_collect_pre [of "[CHR ''a'', LF, CHR ''b'', LF]", folded E_ok_def]

lemma readlines_ab:
  "universal_newlines [CHR ''a'', LF, CHR ''b'', LF] = [CHR ''a'', LF, CHR ''b'', LF]"
  "readlines [CHR ''a'', LF, CHR ''b'', LF] = [[CHR ''a'', LF], [CHR ''b'', LF]]"
  "CR \<notin> set [CHR ''a'', LF, CHR ''b'', LF]"
  by (simp_all add: readlines_def LF_def CR_def)

theorem C1_collect_urls_copies_lines_witness:
  "\<exists>w2 w'.
       run_command E_ok (''python ParamSpider/paramspider.py -d '' @ ''example.com'' @ '' -o '' @ temp_file)
             None (logging_info (''Collecting URLs for domain: '' @ ''example.com'') w_ready) = (Inr (), w2)
     \<and> fs w2 (Path temp_file) = Some (File [CHR ''a'', LF, CHR ''b'', LF])
     \<and> decodable E_ok [CHR ''a'', LF, CHR ''b'', LF]
     \<and> is_dir (fs w2) (Path ''out'')
     \<and> fs w2 (joinpath (Path ''out'') ''urls.txt'') \<noteq> Some Dir
     \<and> CR \<notin> set [CHR ''a'', LF, CHR ''b'', LF]
     \<and> collect_urls E_ok ''example.com'' ''out'' w_ready = (Inr (), w')
     \<and> fs w' (joinpath (Path ''out'') ''urls.txt'') = Some (File [CHR ''a'', LF, CHR ''b'', LF])
     \<and> readlines [CHR ''a'', LF, CHR ''b'', LF] = [[CHR ''a'', LF], [CHR ''b'', LF]]"
  using C1_collect_urls_copies_lines [OF E_ok_collect_pre] E_ok_collect_pre readlines_ab
  by metis

lemma E_binary_run:
  "run_command E_binary c None v =
     (Inr (), \<lparr>fs = fs_out [CHR 0xFF, LF] (fs v),
               trace = trace v @ [Log INFO (''Running command: '' @ c), Run c None, Log INFO []]\<rparr>)"
proof -
  have "run_command_body E_binary c None v =
     (Inr (), \<lparr>fs = fs_out [CHR 0xFF, LF] (fs v),
               trace = trace v @ [Log INFO (''Running command: '' @ c), Run c None, Log INFO []]\<rparr>)"
    by (simp add: run_command_body_def subprocess_run_def wait_for_def E_binary_def E_out_def
        Let_def log_defs emit_def)
  then show ?thesis by (simp add: run_command_unfold)
qed

text \<open>
  The claim as stated (the lines of every output file arrive unchanged) fails in two
  ways. An output with carriage returns is rewritten: \<open>a\r\nb\rc\<close> arrives as
  \<open>a\nb\nc\<close>. An output that does not decode makes \<open>collect_urls\<close> raise
  \<open>UnicodeDecodeError\<close> after the discovery command has succeeded, and \<open>urls.txt\<close> is
  left as it was.
\<close>

theorem C1_lines_rewritten_counterexample:
  "fs (snd (run_command E_cr (''python ParamSpider/paramspider.py -d '' @ ''example.com''
                               @ '' -o '' @ temp_file)
             None (logging_info (''Collecting URLs for domain: '' @ ''example.com'') w_ready)))
      (Path temp_file) = Some (File [CHR ''a'', CR, LF, CHR ''b'', CR, CHR ''c''])
   \<and> fst (collect_urls E_cr ''example.com'' ''out'' w_ready) = Inr ()
   \<and> fs (snd (collect_urls E_cr ''example.com'' ''out'' w_ready)) (joinpath (Path ''out'') ''urls.txt'')
       = Some (File [CHR ''a'', LF, CHR ''b'', LF, CHR ''c''])
   \<and> [CHR ''a'', LF, CHR ''b'', LF, CHR ''c''] \<noteq> [CHR ''a'', CR, LF, CHR ''b'', CR, CHR ''c'']
   \<and> fst (run_command E_binary (''python ParamSpider/paramspider.py -d '' @ ''example.com''
                               @ '' -o '' @ temp_file)
             None (logging_info (''Collecting URLs for domain: '' @ ''example.com'') w_ready))
       = Inr ()
   \<and> fst (collect_urls E_binary ''example.com'' ''out'' w_ready) = Inl UnicodeDecodeError
   \<and> fs (snd (collect_urls E_binary ''example.com'' ''out'' w_ready))
        (joinpath (Path ''out'') ''urls.txt'')
       = fs w_ready (joinpath (Path ''out'') ''urls.txt'')"
proof -
  note pre = E_out_collect_pre [of "[CHR ''a'', CR, LF, CHR ''b'', CR, CHR ''c'']", folded E_cr_def]
  have u: "universal_newlines [CHR ''a'', CR, LF, CHR ''b'', CR, CHR ''c'']
             = [CHR ''a'', LF, CHR ''b'', LF, CHR ''c'']"
    by (simp add: LF_def CR_def)
  have 1: "fs (snd (run_command E_cr (''python ParamSpider/paramspider.py -d '' @ ''example.com''
                               @ '' -o '' @ temp_file)
             None (logging_info (''Collecting URLs for domain: '' @ ''example.com'') w_ready)))
      (Path temp_file) = Some (File [CHR ''a'', CR, LF, CHR ''b'', CR, CHR ''c''])"
    by (rule pre(2))
  have "collect_urls E_cr ''example.com'' ''out'' w_ready
          = (Inr (), \<lparr>fs = (fs (snd (run_command E_cr (''python ParamSpider/paramspider.py -d '' @ ''example.com''
                               @ '' -o '' @ temp_file)
             None (logging_info (''Collecting URLs for domain: '' @ ''example.com'') w_ready))))
                 (joinpath (Path ''out'') ''urls.txt'' \<mapsto> File (concat (readlines [CHR ''a'', CR, LF, CHR ''b'', CR, CHR ''c''])),
                               Path temp_file := None),
                     trace = trace (snd (run_command E_cr (''python ParamSpider/paramspider.py -d '' @ ''example.com''
                               @ '' -o '' @ temp_file)
             None (logging_info (''Collecting URLs for domain: '' @ ''example.com'') w_ready))) @ [Open (Path temp_file) ''r'',
                                         Open (joinpath (Path ''out'') ''urls.txt'') ''w'',
                                         Remove (Path temp_file),
                                         Log INFO (''URLs saved to '' @ path_str (joinpath (Path ''out'') ''urls.txt''))]\<rparr>)"
    by (rule collect_urls_success [OF pre])
  then have 2: "fst (collect_urls E_cr ''example.com'' ''out'' w_ready) = Inr ()"
    and 3: "fs (snd (collect_urls E_cr ''example.com'' ''out'' w_ready)) (joinpath (Path ''out'') ''urls.txt'')
       = Some (File (concat (readlines [CHR ''a'', CR, LF, CHR ''b'', CR, CHR ''c''])))"
    using urls_neq_temp [of "Path ''out''"] by simp_all
  note 3 = 3 [unfolded concat_readlines u]
  have 4: "[CHR ''a'', LF, CHR ''b'', LF, CHR ''c''] \<noteq> [CHR ''a'', CR, LF, CHR ''b'', CR, CHR ''c'']"
    by (simp add: LF_def CR_def)
  let ?c = "''python ParamSpider/paramspider.py -d '' @ ''example.com'' @ '' -o '' @ temp_file"
  let ?w1 = "logging_info (''Collecting URLs for domain: '' @ ''example.com'') w_ready"
  let ?w2 = "\<lparr>fs = fs_out [CHR 0xFF, LF] (fs ?w1),
              trace = trace ?w1 @ [Log INFO (''Running command: '' @ ?c), Run ?c None, Log INFO []]\<rparr>"
  have rb: "run_command E_binary ?c None ?w1 = (Inr (), ?w2)"
    by (rule E_binary_run)
  then have 5: "fst (run_command E_binary ?c None ?w1) = Inr ()"
    by simp
  have nd: "\<not> decodable E_binary [CHR 0xFF, LF]"
    by (simp add: E_binary_def)
  have tf: "fs ?w2 (Path temp_file) = Some (File [CHR 0xFF, LF])"
    by (simp add: fs_out_def Path_temp Path_temp_lit Path_tpl)
  have od: "open_read E_binary (Path temp_file) ?w2
              = (Inl UnicodeDecodeError, emit (Open (Path temp_file) ''r'') ?w2)"
    using nd tf by (simp add: open_read_def Let_def Path_temp)
  have cb: "collect_urls E_binary ''example.com'' ''out'' w_ready
          = (Inl UnicodeDecodeError, emit (Open (Path temp_file) ''r'') ?w2)"
    by (simp only: collect_urls_def Let_def rb od prod.case sum.case)
  then have 6: "fst (collect_urls E_binary ''example.com'' ''out'' w_ready) = Inl UnicodeDecodeError"
    by simp
  have 7: "fs (snd (collect_urls E_binary ''example.com'' ''out'' w_ready))
        (joinpath (Path ''out'') ''urls.txt'')
       = fs w_ready (joinpath (Path ''out'') ''urls.txt'')"
    unfolding cb
    by (simp add: fs_out_def log_defs joinpath_urls Path_out Path_temp_lit Path_tpl)
  from 1 2 3 4 5 6 7 show ?thesis by blast
qed

theorem C9_collect_urls_removes_temp_file_witness:
  "\<exists>w'. collect_urls E_ok ''example.com'' ''out'' w_ready = (Inr (), w')
       \<and> fs w' (Path temp_file) = None"
proof -
  from collect_urls_success [OF E_ok_collect_pre]
  obtain w' where h: "collect_urls E_ok ''example.com'' ''out'' w_ready = (Inr (), w')"
    by blast
  from C9_collect_urls_removes_temp_file [OF h] h show ?thesis by blast
qed


subsection \<open>The top level\<close>

text \<open>
  Claim C4, amended. Whenever \<open>process_target\<close> raises an instance of \<open>Exception\<close>,
  \<open>main\<close> adds one error record with the exception as the last record of the log and
  the process exits with status 1. A \<open>KeyboardInterrupt\<close> raised by \<open>process_target\<close>
  leaves \<open>main\<close> uncaught and nothing is logged for it. Whenever \<open>process_target\<close> returns
  normally, \<open>main\<close> adds the record of completion and the process exits with status 0.
  In every case \<open>main\<close> has first printed the banner and logged the start.
\<close>

theorem C4_main_exit_status:
  assumes "process_target E (args_domain a) (args_output_dir a) (args_templates a)
             (banner (setup_logging w)) = (r, w')"
  shows "trace (banner (setup_logging w)) = trace w @ [PrintBanner, Log INFO ''SpiderScan started.'']
       \<and> (\<forall>e. r = Inl e \<and> is_Exception e \<longrightarrow>
             fst (main E a w) = Exit 1
             \<and> trace (snd (main E a w))
                 = trace w' @ [Log ERROR (''SpiderScan encountered an error: '' @ exc_str E e)]
             \<and> fs (snd (main E a w)) = fs w')
       \<and> (\<forall>e. r = Inl e \<and> \<not> is_Exception e \<longrightarrow> main E a w = (Uncaught e, w'))
       \<and> (r = Inr () \<longrightarrow>
             fst (main E a w) = Exit 0
             \<and> trace (snd (main E a w))
                 = trace w' @ [Log INFO ''SpiderScan completed successfully.'']
             \<and> fs (snd (main E a w)) = fs w')"
  using assms
  by (cases r) (simp_all add: main_def Let_def banner_def setup_logging_def log_defs)

lemma and_then_Inr [simp]: "and_then (Inr x, v) k = k x v"
  and and_then_Inl [simp]: "and_then (Inl e, v) k = (Inl e, v)"
  by (simp_all add: and_then_def)

lemma Path_mkdir_fresh:
  assumes "fs v p = None" and "parts p = [x]"
  shows "Path_mkdir p v = (Inr (), (emit (Mkdir p) v)\<lparr>fs := (fs v)(p \<mapsto> Dir)\<rparr>)"
proof -
  have "os_mkdir p (fs v) = (Inr (), (fs v)(p \<mapsto> Dir))"
    using assms by (simp add: os_mkdir_def exists_path_def is_dir_def parent_def)
  then have "mkdir_parents p (fs v) = (Inr (), (fs v)(p \<mapsto> Dir))"
    by (subst mkdir_parents.simps) simp
  then show ?thesis by (simp add: Path_mkdir_def Let_def)
qed


lemma E_ok_run_ex: "\<exists>v'. run_command E_ok c None v = (Inr (), v') \<and> fs v' = fs_ab (fs v)"
  by (simp add: E_ok_def E_out_run fs_ab_def)

lemma E_ok_check_ex:
  "\<exists>v'. check_dependency E_ok c i v = (Inr (), v') \<and> fs v' = fs_ab (fs v)"
  by (simp add: check_dependency_def subprocess_call_def E_ok_def E_out_def Let_def fs_ab_def)

lemma fs_ab_reads:
  "fs_ab f (Path ''out'') = f (Path ''out'')"
  "fs_ab f (Path ''tpl'') = Some Dir"
  "fs_ab f (Path temp_file) = Some (File [CHR ''a'', LF, CHR ''b'', LF])"
  "fs_ab f (joinpath (Path ''out'') ''urls.txt'') = f (joinpath (Path ''out'') ''urls.txt'')"
  by (simp_all add: fs_ab_def fs_out_def Path_out Path_tpl Path_temp_lit temp_file_def joinpath_urls)

lemma process_target_ok:
  "\<exists>w'. process_target E_ok ''example.com'' ''out'' ''tpl'' (banner (setup_logging w_empty)) = (Inr (), w')"
proof -
  let ?w0 = "banner (setup_logging w_empty)"
  let ?u = "joinpath (Path ''out'') ''urls.txt''"
  have f0: "fs ?w0 = (\<lambda>p. None)"
    by (simp add: banner_def setup_logging_def log_defs w_empty_def)
  obtain w1 where m: "Path_mkdir (Path ''out'') ?w0 = (Inr (), w1)"
    and f1: "fs w1 = (\<lambda>p. None)(Path ''out'' \<mapsto> Dir)"
    using Path_mkdir_fresh [of ?w0 "Path ''out''" "''out''"] f0 by (simp add: Path_out)
  have "\<not> exists_path (fs w1) (Path ''ParamSpider'')"
    by (simp add: f1 exists_path_def Path_ParamSpider Path_out)
  then have "clone_repo E_ok ''https://github.com/0xKayala/ParamSpider.git'' ''ParamSpider'' w1
      = run_command E_ok (''git clone '' @ ''https://github.com/0xKayala/ParamSpider.git'' @ '' '' @ ''ParamSpider'') None w1"
    by (simp add: clone_repo_def)
  with E_ok_run_ex obtain w2 where
    c1: "clone_repo E_ok ''https://github.com/0xKayala/ParamSpider.git'' ''ParamSpider'' w1 = (Inr (), w2)"
    and f2: "fs w2 = fs_ab (fs w1)"
    by metis
  from E_ok_run_ex obtain w3 where
    p: "run_command E_ok ''pip install -r ParamSpider/requirements.txt'' None w2 = (Inr (), w3)"
    and f3: "fs w3 = fs_ab (fs w2)"
    by blast
  have "exists_path (fs w3) (Path ''tpl'')"
    by (simp add: f3 exists_path_def fs_ab_reads)
  then obtain w4 where
    c2: "clone_repo E_ok ''https://github.com/MuhammadWaseem29/Fuzzingtemplates-.git'' ''tpl'' w3 = (Inr (), w4)"
    and f4: "fs w4 = fs w3"
    by (simp add: clone_repo_def log_defs)
  from E_ok_check_ex obtain w5 where
    d: "check_dependency E_ok ''nuclei -version''
          ''go install -v github.com/projectdiscovery/nuclei/v2/cmd/nuclei@latest'' w4 = (Inr (), w5)"
    and f5: "fs w5 = fs_ab (fs w4)"
    by blast
  let ?c = "''python ParamSpider/paramspider.py -d '' @ ''example.com'' @ '' -o '' @ temp_file"
  let ?w5 = "logging_info (''Collecting URLs for domain: '' @ ''example.com'') w5"
  from E_ok_run_ex obtain w6 where
    r6: "run_command E_ok ?c None ?w5 = (Inr (), w6)" and f6: "fs w6 = fs_ab (fs ?w5)"
    by blast
  have g6: "fs w6 (Path temp_file) = Some (File [CHR ''a'', LF, CHR ''b'', LF])"
    "is_dir (fs w6) (Path ''out'')" "fs w6 ?u \<noteq> Some Dir"
    by (simp_all add: f6 f5 f4 f3 f2 f1 fs_ab_reads log_defs is_dir_def)
       (simp add: joinpath_urls Path_out)
  have dec: "decodable E_ok [CHR ''a'', LF, CHR ''b'', LF]"
    by (simp add: E_ok_def E_out_def)
  from collect_urls_success [OF r6 g6(1) dec g6(2) g6(3)] obtain w7 where
    cu: "collect_urls E_ok ''example.com'' ''out'' w5 = (Inr (), w7)"
    and f7: "fs w7 = (fs w6)(?u \<mapsto> File (concat (readlines [CHR ''a'', LF, CHR ''b'', LF])),
                        Path temp_file := None)"
    by simp
  have e7: "exists_path (fs w7) ?u" "exists_path (fs w7) (Path ''tpl'')"
    using urls_neq_temp [of "Path ''out''"]
    by (simp_all add: exists_path_def f7 f6 fs_ab_reads log_defs)
       (simp add: joinpath_urls Path_out Path_tpl Path_temp)
  let ?w8 = "logging_info (''Running Nuclei with templates from: '' @ ''tpl'') w7"
  from E_ok_run_ex obtain w9 where
    r9: "run_command E_ok (''nuclei -l '' @ format_pathlike (PathObj ?u) @ '' -t '' @ ''tpl'') None ?w8
           = (Inr (), w9)"
    by blast
  have n: "run_nuclei E_ok (PathObj ?u) ''tpl'' w7 = (Inr (), w9)"
    using e7 r9 by (simp add: run_nuclei_def Let_def log_defs)
  have "executor_block E_ok ''example.com'' ''out'' ''tpl'' w5 = (Inr (), w9)"
    by (simp add: executor_block_def submit_def Let_def cu n)
  then have "process_target E_ok ''example.com'' ''out'' ''tpl'' ?w0 = (Inr (), w9)"
    by (simp add: process_target_def m c1 p c2 d)
  then show ?thesis by blast
qed

lemma E_interrupted_body_value:
  "run_command_body E_interrupted c None v =
     (Inl KeyboardInterrupt,
      \<lparr>fs = fs_ab (fs v),
       trace = trace v @ [Log INFO (''Running command: '' @ c), Run c None]\<rparr>)"
  by (simp add: run_command_body_def subprocess_run_def wait_for_def E_interrupted_def E_ok_def
      E_out_def fs_ab_def Let_def log_defs emit_def)

lemma E_interrupted_run:
  "run_command E_interrupted c None v =
     (Inl KeyboardInterrupt,
      \<lparr>fs = fs_ab (fs_ab (fs_ab (fs v))),
       trace = trace v @ [Log INFO (''Running command: '' @ c), Run c None, Sleep 5000,
                          Log INFO (''Running command: '' @ c), Run c None, Sleep 5000,
                          Log INFO (''Running command: '' @ c), Run c None]\<rparr>)"
  by (simp add: run_command_unfold E_interrupted_body_value log_defs emit_def)

lemma stat_interrupted [simp]:
  "Path_exists E_interrupted f p = Inr (exists_path f p)"
  by (simp add: Path_exists_def E_interrupted_def E_ok_def E_out_def)

lemma mkdir_out:
  "Path_mkdir (Path ''out'') (banner (setup_logging w_empty))
     = (Inr (), \<lparr>fs = (\<lambda>p. None)(Path ''out'' \<mapsto> Dir),
                  trace = [PrintBanner, Log INFO ''SpiderScan started.'', Mkdir (Path ''out'')]\<rparr>)"
proof -
  have "fs (banner (setup_logging w_empty)) (Path ''out'') = None"
    by (simp add: banner_def setup_logging_def log_defs w_empty_def)
  from Path_mkdir_fresh [OF this, of "''out''"] show ?thesis
    by (simp add: Path_out banner_def setup_logging_def log_defs emit_def w_empty_def)
qed

lemma process_target_fail:
  "\<exists>w'. process_target E_fail ''example.com'' ''out'' ''tpl'' (banner (setup_logging w_empty))
         = (Inl (CalledProcessError
                   ''git clone https://github.com/0xKayala/ParamSpider.git ParamSpider'' 1 [] []),
            w')"
proof -
  let ?w1 = "\<lparr>fs = (\<lambda>p. None)(Path ''out'' \<mapsto> Dir),
              trace = [PrintBanner, Log INFO ''SpiderScan started.'', Mkdir (Path ''out'')]\<rparr>"
  have "\<not> exists_path (fs ?w1) (Path ''ParamSpider'')"
    by (simp add: exists_path_def Path_ParamSpider Path_out)
  then have c: "clone_repo E_fail ''https://github.com/0xKayala/ParamSpider.git'' ''ParamSpider'' ?w1
      = run_command E_fail ''git clone https://github.com/0xKayala/ParamSpider.git ParamSpider''
          None ?w1"
    by (simp add: clone_repo_def)
  from E_fail_run obtain w2 where
    "run_command E_fail ''git clone https://github.com/0xKayala/ParamSpider.git ParamSpider''
          None ?w1
       = (Inl (CalledProcessError
                 ''git clone https://github.com/0xKayala/ParamSpider.git ParamSpider'' 1 [] []), w2)"
    by blast
  with c have "process_target E_fail ''example.com'' ''out'' ''tpl'' (banner (setup_logging w_empty))
         = (Inl (CalledProcessError
                   ''git clone https://github.com/0xKayala/ParamSpider.git ParamSpider'' 1 [] []),
            w2)"
    by (simp add: process_target_def mkdir_out)
  then show ?thesis by blast
qed

lemma process_target_interrupted:
  "process_target E_interrupted ''example.com'' ''out'' ''tpl'' (banner (setup_logging w_empty))
     = (Inl KeyboardInterrupt,
        \<lparr>fs = fs_ab (fs_ab (fs_ab ((\<lambda>p. None)(Path ''out'' \<mapsto> Dir)))),
         trace = [PrintBanner, Log INFO ''SpiderScan started.'', Mkdir (Path ''out''),
                  Log INFO ''Running command: git clone https://github.com/0xKayala/ParamSpider.git ParamSpider'',
                  Run ''git clone https://github.com/0xKayala/ParamSpider.git ParamSpider'' None,
                  Sleep 5000,
                  Log INFO ''Running command: git clone https://github.com/0xKayala/ParamSpider.git ParamSpider'',
                  Run ''git clone https://github.com/0xKayala/ParamSpider.git ParamSpider'' None,
                  Sleep 5000,
                  Log INFO ''Running command: git clone https://github.com/0xKayala/ParamSpider.git ParamSpider'',
                  Run ''git clone https://github.com/0xKayala/ParamSpider.git ParamSpider'' None]\<rparr>)"
proof -
  let ?w1 = "\<lparr>fs = (\<lambda>p. None)(Path ''out'' \<mapsto> Dir),
              trace = [PrintBanner, Log INFO ''SpiderScan started.'', Mkdir (Path ''out'')]\<rparr>"
  have "\<not> exists_path (fs ?w1) (Path ''ParamSpider'')"
    by (simp add: exists_path_def Path_ParamSpider Path_out)
  then have c: "clone_repo E_interrupted ''https://github.com/0xKayala/ParamSpider.git'' ''ParamSpider'' ?w1
      = run_command E_interrupted ''git clone https://github.com/0xKayala/ParamSpider.git ParamSpider''
          None ?w1"
    by (simp add: clone_repo_def)
  show ?thesis
    by (simp add: process_target_def mkdir_out c E_interrupted_run)
qed

theorem C4_main_exit_status_witness:
  "(\<exists>e w'. process_target E_fail (args_domain a_example) (args_output_dir a_example)
               (args_templates a_example) (banner (setup_logging w_empty)) = (Inl e, w')
           \<and> is_Exception e
           \<and> fst (main E_fail a_example w_empty) = Exit 1
           \<and> trace (snd (main E_fail a_example w_empty))
               = trace w' @ [Log ERROR (''SpiderScan encountered an error: '' @ exc_str E_fail e)])
   \<and> (\<exists>w'. process_target E_ok (args_domain a_example) (args_output_dir a_example)
               (args_templates a_example) (banner (setup_logging w_empty)) = (Inr (), w')
           \<and> fst (main E_ok a_example w_empty) = Exit 0
           \<and> trace (snd (main E_ok a_example w_empty))
               = trace w' @ [Log INFO ''SpiderScan completed successfully.''])"
proof -
  obtain e w1 where f: "process_target E_fail (args_domain a_example) (args_output_dir a_example)
               (args_templates a_example) (banner (setup_logging w_empty)) = (Inl e, w1)"
    and x: "is_Exception e"
    using process_target_fail by (auto simp: a_example_def)
  obtain w2 where s: "process_target E_ok (args_domain a_example) (args_output_dir a_example)
               (args_templates a_example) (banner (setup_logging w_empty)) = (Inr (), w2)"
    using process_target_ok by (auto simp: a_example_def)
  from C4_main_exit_status [OF f] x
  have 1: "fst (main E_fail a_example w_empty) = Exit 1"
    "trace (snd (main E_fail a_example w_empty))
               = trace w1 @ [Log ERROR (''SpiderScan encountered an error: '' @ exc_str E_fail e)]"
    by simp_all
  from C4_main_exit_status [OF s]
  have 2: "fst (main E_ok a_example w_empty) = Exit 0"
    "trace (snd (main E_ok a_example w_empty))
               = trace w2 @ [Log INFO ''SpiderScan completed successfully.'']"
    by simp_all
  from f x s 1 2 show ?thesis by blast
qed

text \<open>
  The claim as stated (an error record and exit status 1 whenever \<open>process_target\<close>
  raises any exception) fails for a \<open>KeyboardInterrupt\<close>: with a user who interrupts
  every command, \<open>process_target\<close> raises it after the third attempt of the first clone,
  \<open>main\<close> does not catch it, and the log holds no error record.
\<close>

theorem C4_keyboard_interrupt_counterexample:
  "fst (process_target E_interrupted (args_domain a_example) (args_output_dir a_example)
          (args_templates a_example) (banner (setup_logging w_empty))) = Inl KeyboardInterrupt
   \<and> fst (main E_interrupted a_example w_empty) = Uncaught KeyboardInterrupt
   \<and> fst (main E_interrupted a_example w_empty) \<noteq> Exit 1
   \<and> trace (snd (main E_interrupted a_example w_empty))
       = [PrintBanner, Log INFO ''SpiderScan started.'', Mkdir (Path ''out''),
          Log INFO ''Running command: git clone https://github.com/0xKayala/ParamSpider.git ParamSpider'',
          Run ''git clone https://github.com/0xKayala/ParamSpider.git ParamSpider'' None,
          Sleep 5000,
          Log INFO ''Running command: git clone https://github.com/0xKayala/ParamSpider.git ParamSpider'',
          Run ''git clone https://github.com/0xKayala/ParamSpider.git ParamSpider'' None,
          Sleep 5000,
          Log INFO ''Running command: git clone https://github.com/0xKayala/ParamSpider.git ParamSpider'',
          Run ''git clone https://github.com/0xKayala/ParamSpider.git ParamSpider'' None]"
  by (simp add: main_def Let_def a_example_def process_target_interrupted)


subsection \<open>The executor block\<close>

lemma block_inv_initial: "block_inv E d od t w (initial w)"
  by (simp add: block_inv_def initial_def Let_def)

lemma sequential_chain_fst_snd:
  "sequential_chain E d od t w =
     (case fst (collect_urls E d od w) of
        Inl e \<Rightarrow> (Inl e, snd (collect_urls E d od w))
      | Inr u \<Rightarrow> run_nuclei E (PathObj (joinpath (Path od) ''urls.txt'')) t (snd (collect_urls E d od w)))"
  by (simp add: sequential_chain_def split: prod.splits sum.splits)

lemma block_inv_main:
  assumes "block_inv E d od t w c" and "main_thread c = Some c'"
  shows "block_inv E d od t w c'"
  using assms
  by (cases "pc c")
     (auto simp: block_inv_def main_thread_def Let_def settled_def sequential_chain_fst_snd
           split: option.splits task_state.splits sum.splits if_splits prod.splits)

lemma block_inv_collect:
  assumes "block_inv E d od t w c" and "worker_collect E d od c = Some c'"
  shows "block_inv E d od t w c'"
  using assms
  by (cases "pc c")
     (auto simp: block_inv_def worker_collect_def Let_def settled_def
           split: option.splits task_state.splits prod.splits)

lemma block_inv_nuclei:
  assumes "block_inv E d od t w c" and "worker_nuclei E od t c = Some c'"
  shows "block_inv E d od t w c'"
  using assms
  by (cases "pc c")
     (auto simp: block_inv_def worker_nuclei_def Let_def settled_def
           split: option.splits task_state.splits prod.splits)

lemma block_inv_step:
  assumes "block_inv E d od t w c" and "step E d od t c c'"
  shows "block_inv E d od t w c'"
  using assms unfolding step_def
  by (elim disjE) (rule block_inv_main block_inv_collect block_inv_nuclei; assumption)+

lemma block_inv_reachable:
  assumes "(step E d od t)\<^sup>*\<^sup>* (initial w) c"
  shows "block_inv E d od t w c"
  using assms
  by (induction rule: rtranclp_induct) (auto intro: block_inv_initial block_inv_step)

lemma block_inv_progress:
  assumes "block_inv E d od t w c" and "\<And>r. pc c \<noteq> Exited r"
  shows "\<exists>c'. step E d od t c c'"
  using assms
  by (cases "pc c")
     (auto simp: block_inv_def step_def main_thread_def worker_collect_def worker_nuclei_def
                 Let_def settled_def
           split: option.splits task_state.splits sum.splits prod.splits)

lemma rank_main:
  assumes "main_thread c = Some c'"
  shows "rank c' < rank c"
proof -
  have t: "task_rank x \<le> 2" for x
    by (simp add: task_rank_def split: option.splits task_state.splits)
  show ?thesis
  proof (cases "pc c")
    case SubmitCollect
    with assms have "c' = c\<lparr>pc := ResultCollect, future_collect := Some Pending\<rparr>"
      by (simp add: main_thread_def)
    with SubmitCollect show ?thesis
      by (simp add: rank_def pc_rank_def task_rank_def)
  next
    case ResultCollect
    with assms have "pc c' = SubmitNuclei \<or> (\<exists>e. pc c' = Shutdown e)"
      and "future_collect c' = future_collect c" and "future_nuclei c' = future_nuclei c"
      by (auto simp: main_thread_def split: option.splits task_state.splits sum.splits)
    with ResultCollect show ?thesis
      by (auto simp: rank_def pc_rank_def)
  next
    case SubmitNuclei
    with assms have "c' = c\<lparr>pc := ResultNuclei, future_nuclei := Some Pending\<rparr>"
      by (simp add: main_thread_def)
    with SubmitNuclei show ?thesis
      by (simp add: rank_def pc_rank_def task_rank_def)
  next
    case ResultNuclei
    with assms have "\<exists>e. pc c' = Shutdown e"
      and "future_collect c' = future_collect c" and "future_nuclei c' = future_nuclei c"
      by (auto simp: main_thread_def split: option.splits task_state.splits)
    with ResultNuclei show ?thesis
      by (auto simp: rank_def pc_rank_def)
  next
    case (Shutdown r)
    with assms have "pc c' = Exited r"
      and "future_collect c' = future_collect c" and "future_nuclei c' = future_nuclei c"
      by (auto simp: main_thread_def split: if_splits)
    with Shutdown show ?thesis
      by (simp add: rank_def pc_rank_def)
  next
    case (Exited r)
    with assms show ?thesis by (simp add: main_thread_def)
  qed
qed

lemma rank_collect: "worker_collect E d od c = Some c' \<Longrightarrow> rank c' < rank c"
  by (auto simp: worker_collect_def rank_def pc_rank_def task_rank_def
           split: option.splits task_state.splits prod.splits)

lemma rank_nuclei: "worker_nuclei E od t c = Some c' \<Longrightarrow> rank c' < rank c"
  by (auto simp: worker_nuclei_def rank_def pc_rank_def task_rank_def
           split: option.splits task_state.splits prod.splits)

lemma rank_step: "step E d od t c c' \<Longrightarrow> rank c' < rank c"
  unfolding step_def using rank_main rank_collect rank_nuclei by blast

lemma executor_block_sequential:
  "executor_block E d od t w = sequential_chain E d od t w"
  by (simp add: executor_block_def sequential_chain_def submit_def and_then_def Let_def
      split: prod.splits sum.splits)


lemma block_inv_order:
  assumes "block_inv E d od t w c"
  shows "future_nuclei c \<noteq> None \<longrightarrow> future_collect c = Some (Done (Inr ()))"
  using assms
  by (cases "pc c") (auto simp: block_inv_def Let_def)

lemma block_inv_exited:
  assumes "block_inv E d od t w c" and "pc c = Exited r"
  shows "(r, cworld c) = sequential_chain E d od t w"
  using assms by (simp add: block_inv_def Let_def)


lemma E_fail_collect:
  "\<exists>e w'. collect_urls E_fail d od w = (Inl e, w')"
proof -
  have "\<And>v. returncode (shell E_fail (''python ParamSpider/paramspider.py -d '' @ d @ '' -o '' @ temp_file) None v) \<noteq> 0"
    by (simp add: E_fail_def)
  from run_command_all_fail [OF this]
  obtain e w' where "run_command E_fail (''python ParamSpider/paramspider.py -d '' @ d @ '' -o '' @ temp_file)
       None (logging_info (''Collecting URLs for domain: '' @ d) w) = (Inl e, w')"
    by blast
  then have "collect_urls E_fail d od w = (Inl e, w')"
    by (simp add: collect_urls_def Let_def)
  then show ?thesis by blast
qed

lemma E_fail_block_run:
  assumes "collect_urls E_fail d od w = (Inl e, w')"
  shows "(step E_fail d od t)\<^sup>*\<^sup>* (initial w)
           \<lparr>pc = Exited (Inl e), future_collect = Some (Done (Inl e)), future_nuclei = None,
            cworld = w'\<rparr>"
proof -
  let ?S = "step E_fail d od t"
  let ?c1 = "\<lparr>pc = ResultCollect, future_collect = Some Pending, future_nuclei = None, cworld = w\<rparr>"
  let ?c2 = "\<lparr>pc = ResultCollect, future_collect = Some Running, future_nuclei = None, cworld = w\<rparr>"
  let ?c3 = "\<lparr>pc = ResultCollect, future_collect = Some (Done (Inl e)), future_nuclei = None, cworld = w'\<rparr>"
  let ?c4 = "\<lparr>pc = Shutdown (Inl e), future_collect = Some (Done (Inl e)), future_nuclei = None, cworld = w'\<rparr>"
  let ?c5 = "\<lparr>pc = Exited (Inl e), future_collect = Some (Done (Inl e)), future_nuclei = None, cworld = w'\<rparr>"
  have s1: "?S (initial w) ?c1"
    by (simp add: step_def main_thread_def initial_def)
  have s2: "?S ?c1 ?c2"
    by (simp add: step_def worker_collect_def)
  have s3: "?S ?c2 ?c3"
    using assms by (simp add: step_def worker_collect_def)
  have s4: "?S ?c3 ?c4"
    by (simp add: step_def main_thread_def)
  have s5: "?S ?c4 ?c5"
    by (simp add: step_def main_thread_def settled_def)
  from s1 s2 s3 s4 s5 show ?thesis
    by (meson rtranclp.rtrancl_into_rtrancl rtranclp.rtrancl_refl)
qed


end
